theory Spec2Isabelle
  imports Complex_Main
begin

section \<open>Data model\<close>

text \<open>
  A cell of a table read from CSV is missing (NaN), a number or a string.
  Numeric columns are modelled over the reals; a missing number (NaN) is \<open>None\<close>.
\<close>

datatype cell = CNaN | CNum real | CStr string

text \<open>A row of the binary vote table after loading (the columns the signals read).\<close>

record binary_row =
  Participant_ID :: string
  Thought_ID :: string
  Vote :: cell
  VoteNumeric :: "real option"

record consensus_data =
  strong_agree_thoughts :: "string set"
  strong_disagree_thoughts :: "string set"

section \<open>load_data: vote normalisation\<close>

text \<open>
  \<^verbatim>\<open>binary_df['VoteNumeric'] = binary_df['Vote'].map(
      {'Agree': 1, 'agree': 1, 'Disagree': 0, 'disagree': 0}).astype(float)\<close>
  A value that is not a key of the dictionary maps to NaN.
\<close>

definition vote_dict :: "(string \<times> real) list" where
  "vote_dict = [(''Agree'', 1), (''agree'', 1), (''Disagree'', 0), (''disagree'', 0)]"

fun load_data_VoteNumeric :: "cell \<Rightarrow> real option" where
  "load_data_VoteNumeric (CStr s) = map_of vote_dict s"
| "load_data_VoteNumeric (CNum v) = None"
| "load_data_VoteNumeric CNaN = None"

text \<open>ASCII lower-casing, used to say what "a casing of" a word is.\<close>

definition lower_char :: "char \<Rightarrow> char" where
  "lower_char c =
     (if 65 \<le> (of_char c :: nat) \<and> (of_char c :: nat) \<le> 90
      then char_of ((of_char c :: nat) + 32) else c)"

definition py_lower :: "string \<Rightarrow> string" where
  "py_lower s = map lower_char s"

section \<open>calculate_asc_score\<close>

text \<open>
  The loop over the participant's votes on consensus thoughts; the accumulator is
  \<open>(against_consensus_count, total_consensus_votes)\<close>.
\<close>

fun asc_loop :: "consensus_data \<Rightarrow> binary_row list \<Rightarrow> nat \<times> nat \<Rightarrow> nat \<times> nat" where
  "asc_loop cd [] (against_consensus_count, total_consensus_votes) =
     (against_consensus_count, total_consensus_votes)"
| "asc_loop cd (vote_row # rest) (against_consensus_count, total_consensus_votes) =
     (case VoteNumeric vote_row of
        None \<Rightarrow> asc_loop cd rest (against_consensus_count, total_consensus_votes)
      | Some vote_value \<Rightarrow>
          if Thought_ID vote_row \<in> strong_agree_thoughts cd \<and> vote_value = 0
          then asc_loop cd rest (against_consensus_count + 1, total_consensus_votes + 1)
          else if Thought_ID vote_row \<in> strong_disagree_thoughts cd \<and> vote_value = 1
          then asc_loop cd rest (against_consensus_count + 1, total_consensus_votes + 1)
          else asc_loop cd rest (against_consensus_count, total_consensus_votes + 1))"

definition calculate_asc_score :: "string \<Rightarrow> binary_row list \<Rightarrow> consensus_data \<Rightarrow> real option" where
  "calculate_asc_score participant_id binary_df cd =
     (let all_consensus_thoughts = strong_agree_thoughts cd \<union> strong_disagree_thoughts cd
      in if all_consensus_thoughts = {} then None
         else
           let participant_binary_df = filter (\<lambda>r. Participant_ID r = participant_id) binary_df;
               consensus_votes = filter (\<lambda>r. Thought_ID r \<in> all_consensus_thoughts) participant_binary_df
           in if consensus_votes = [] then None
              else
                case asc_loop cd consensus_votes (0, 0) of
                  (against_consensus_count, total_consensus_votes) \<Rightarrow>
                    if total_consensus_votes = 0 then None
                    else Some (real against_consensus_count / real total_consensus_votes))"

text \<open>In the words of the specification: the valid votes a participant cast on consensus items, and
  which of them go against the consensus.\<close>

definition valid_consensus_votes :: "string \<Rightarrow> binary_row list \<Rightarrow> consensus_data \<Rightarrow> binary_row list" where
  "valid_consensus_votes participant_id binary_df cd =
     filter (\<lambda>r. Participant_ID r = participant_id
               \<and> Thought_ID r \<in> strong_agree_thoughts cd \<union> strong_disagree_thoughts cd
               \<and> VoteNumeric r \<noteq> None) binary_df"

definition against_consensus :: "consensus_data \<Rightarrow> binary_row \<Rightarrow> bool" where
  "against_consensus cd r =
     ((Thought_ID r \<in> strong_agree_thoughts cd \<and> VoteNumeric r = Some 0)
      \<or> (Thought_ID r \<in> strong_disagree_thoughts cd \<and> VoteNumeric r = Some 1))"

text \<open>Example tables for the anti-consensus score.\<close>

definition example_consensus :: consensus_data where
  "example_consensus =
     \<lparr>strong_agree_thoughts = {''t1'', ''t2'', ''t3''}, strong_disagree_thoughts = {''t9''}\<rparr>"

definition example_votes :: "binary_row list" where
  "example_votes =
     [\<lparr>Participant_ID = ''p1'', Thought_ID = ''t1'', Vote = CStr ''Agree'', VoteNumeric = Some 1\<rparr>,
      \<lparr>Participant_ID = ''p1'', Thought_ID = ''t2'', Vote = CStr ''agree'', VoteNumeric = Some 1\<rparr>,
      \<lparr>Participant_ID = ''p2'', Thought_ID = ''t1'', Vote = CStr ''Disagree'', VoteNumeric = Some 0\<rparr>,
      \<lparr>Participant_ID = ''p1'', Thought_ID = ''t3'', Vote = CStr ''Disagree'', VoteNumeric = Some 0\<rparr>,
      \<lparr>Participant_ID = ''p1'', Thought_ID = ''t7'', Vote = CStr ''Disagree'', VoteNumeric = Some 0\<rparr>,
      \<lparr>Participant_ID = ''p1'', Thought_ID = ''t9'', Vote = CStr ''Skip'', VoteNumeric = None\<rparr>]"

section \<open>parse_percentage\<close>

text \<open>Exceptions of the Python code, as values.\<close>

datatype py_error = ValueError | TypeError | KeyError | OtherException

text \<open>
  \<open>str.strip()\<close> removes leading and trailing whitespace. A character of the model is a
  code point below 256; among these \<open>str.isspace\<close> holds for the codes 9 to 13, 28 to 32,
  133 (next line) and 160 (no-break space).
\<close>

definition isspace :: "char \<Rightarrow> bool" where
  "isspace c = ((9 \<le> (of_char c :: nat) \<and> (of_char c :: nat) \<le> 13)
               \<or> (28 \<le> (of_char c :: nat) \<and> (of_char c :: nat) \<le> 32)
               \<or> (of_char c :: nat) = 133
               \<or> (of_char c :: nat) = 160)"

definition strip :: "string \<Rightarrow> string" where
  "strip s = rev (dropWhile isspace (rev (dropWhile isspace s)))"

definition endswith :: "string \<Rightarrow> char \<Rightarrow> bool" where
  "endswith s c = (s \<noteq> [] \<and> last s = c)"

definition rstrip :: "string \<Rightarrow> char \<Rightarrow> string" where
  "rstrip s c = rev (dropWhile (\<lambda>d. d = c) (rev s))"

text \<open>
  The body of the \<open>try\<close> block. Python's builtin \<open>float\<close> on a string is a parameter
  \<open>py_float\<close>: \<open>None\<close> stands for its \<open>ValueError\<close>. A numeric cell is an instance of
  \<open>int\<close> or \<open>float\<close>.
\<close>

definition parse_percentage_try :: "(string \<Rightarrow> real option) \<Rightarrow> cell \<Rightarrow> py_error + real option" where
  "parse_percentage_try py_float value =
     (case value of
        CNaN \<Rightarrow> Inr None
      | CNum v \<Rightarrow> Inr (Some (if v > 1 then v / 100 else v))
      | CStr s \<Rightarrow>
          let value_str = strip s
          in if endswith value_str (CHR ''%'') then
               (case py_float (rstrip value_str (CHR ''%'')) of
                  None \<Rightarrow> Inl ValueError
                | Some x \<Rightarrow> Inr (Some (x / 100)))
             else if value_str \<in> set [''-'', '' - ''] then Inr None
             else
               (case py_float value_str of
                  None \<Rightarrow> Inl ValueError
                | Some val \<Rightarrow> Inr (Some (if val > 1 then val / 100 else val))))"

text \<open>
  \<open>parse_percentage\<close>: the \<open>pd.isna\<close> test, then the \<open>try\<close> block with
  \<open>except (ValueError, TypeError)\<close> returning NaN. Any other exception would propagate.
\<close>

definition parse_percentage :: "(string \<Rightarrow> real option) \<Rightarrow> cell \<Rightarrow> py_error + real option" where
  "parse_percentage py_float value =
     (if value = CNaN then Inr None
      else case parse_percentage_try py_float value of
             Inl ValueError \<Rightarrow> Inr None
           | Inl TypeError \<Rightarrow> Inr None
           | Inl e \<Rightarrow> Inl e
           | Inr r \<Rightarrow> Inr r)"

text \<open>
  A reader of plain decimal literals (optional sign, digits, optional fraction), on
  which it agrees with Python's \<open>float\<close>; it instantiates \<open>py_float\<close> in examples.
\<close>

definition digit_val :: "char \<Rightarrow> nat option" where
  "digit_val c =
     (if 48 \<le> (of_char c :: nat) \<and> (of_char c :: nat) \<le> 57
      then Some ((of_char c :: nat) - 48) else None)"

fun digits_val :: "string \<Rightarrow> nat \<Rightarrow> nat option" where
  "digits_val [] acc = Some acc"
| "digits_val (c # cs) acc =
     (case digit_val c of None \<Rightarrow> None | Some d \<Rightarrow> digits_val cs (10 * acc + d))"

definition decimal_float :: "string \<Rightarrow> real option" where
  "decimal_float s =
     (let neg = (s \<noteq> [] \<and> hd s = CHR ''-'');
          body = (if s \<noteq> [] \<and> (hd s = CHR ''-'' \<or> hd s = CHR ''+'') then tl s else s);
          ip = takeWhile (\<lambda>c. c \<noteq> CHR ''.'') body;
          fp = drop 1 (dropWhile (\<lambda>c. c \<noteq> CHR ''.'') body)
      in if ip = [] \<and> fp = [] then None
         else case (digits_val ip 0, digits_val fp 0) of
                (Some i, Some f) \<Rightarrow>
                  Some ((if neg then - 1 else 1) * (real i + real f / 10 ^ length fp))
              | _ \<Rightarrow> None)"

section \<open>Configuration\<close>

text \<open>The PRI parameters of \<open>get_config\<close> (the file paths play no role here).\<close>

record config =
  ASC_HIGH_THRESHOLD :: real
  ASC_LOW_THRESHOLD :: real
  UNIVERSAL_DISAGREEMENT_THRESHOLD_ALL :: real
  UNIVERSAL_DISAGREEMENT_THRESHOLD_SEGMENTS :: real
  MAJOR_SEGMENT_MIN_PARTICIPANTS :: real
  DURATION_REASONABLE_MAX :: real
  DURATION_WEIGHT :: real
  LOW_QUALITY_TAG_WEIGHT :: real
  UNIVERSAL_DISAGREEMENT_WEIGHT :: real
  ASC_WEIGHT :: real
  DURATION_WEIGHT_LLM :: real
  LOW_QUALITY_TAG_WEIGHT_LLM :: real
  UNIVERSAL_DISAGREEMENT_WEIGHT_LLM :: real
  ASC_WEIGHT_LLM :: real
  LLM_JUDGE_WEIGHT :: real

definition get_config :: "nat \<Rightarrow> config" where
  "get_config gd_number =
     \<lparr>ASC_HIGH_THRESHOLD = 70 / 100,
      ASC_LOW_THRESHOLD = 30 / 100,
      UNIVERSAL_DISAGREEMENT_THRESHOLD_ALL = 30 / 100,
      UNIVERSAL_DISAGREEMENT_THRESHOLD_SEGMENTS = 40 / 100,
      MAJOR_SEGMENT_MIN_PARTICIPANTS = 20,
      DURATION_REASONABLE_MAX = 60 * 90,
      DURATION_WEIGHT = 30 / 100,
      LOW_QUALITY_TAG_WEIGHT = 30 / 100,
      UNIVERSAL_DISAGREEMENT_WEIGHT = 20 / 100,
      ASC_WEIGHT = 20 / 100,
      DURATION_WEIGHT_LLM = 20 / 100,
      LOW_QUALITY_TAG_WEIGHT_LLM = 20 / 100,
      UNIVERSAL_DISAGREEMENT_WEIGHT_LLM = 15 / 100,
      ASC_WEIGHT_LLM = 15 / 100,
      LLM_JUDGE_WEIGHT = 30 / 100\<rparr>"

section \<open>Series with missing values\<close>

text \<open>A numeric column: one value per participant, \<open>None\<close> for NaN.\<close>

type_synonym series = "real option list"

definition isna_all :: "series \<Rightarrow> bool" where
  "isna_all s = list_all (\<lambda>x. x = None) s"

fun dropna :: "series \<Rightarrow> real list" where
  "dropna [] = []"
| "dropna (None # s) = dropna s"
| "dropna (Some v # s) = v # dropna s"

text \<open>\<open>Series.median()\<close> skips NaN: the middle of the sorted values, or the mean of the
  two middle ones; NaN when no value is present.\<close>

definition median :: "series \<Rightarrow> real option" where
  "median s =
     (let vs = sort (dropna s); n = length vs
      in if n = 0 then None
         else if odd n then Some (vs ! (n div 2))
         else Some ((vs ! (n div 2 - 1) + vs ! (n div 2)) / 2))"

definition fillna :: "series \<Rightarrow> real \<Rightarrow> real list" where
  "fillna s fill = map (\<lambda>x. case x of None \<Rightarrow> fill | Some v \<Rightarrow> v) s"

text \<open>Float division of a column entry by a scalar: \<open>0 / 0\<close> is NaN. A nonzero
  numerator over zero is infinite in pandas; \<open>min_max_normalize\<close> keeps a quotient with a
  zero denominator only where the numerator is zero as well (see there).\<close>

definition float_div :: "real \<Rightarrow> real \<Rightarrow> real option" where
  "float_div a b = (if b = 0 then None else Some (a / b))"

section \<open>min_max_normalize\<close>

text \<open>
  The nested function of \<open>normalize_and_calculate_pri\<close>. After the all-NaN test the
  median exists, so the \<open>None\<close> branch of the case is never taken. In the capped branch
  the source first divides the whole column by \<open>reasonable_max - min_val\<close> and then
  overwrites the entries above \<open>reasonable_max\<close> with 1.0; entry by entry this is the
  conditional below. When \<open>reasonable_max = min_val\<close> an entry that is not overwritten
  equals \<open>min_val\<close>, so its quotient is \<open>0 / 0\<close>.
\<close>

definition min_max_normalize :: "series \<Rightarrow> bool \<Rightarrow> real option \<Rightarrow> series" where
  "min_max_normalize series invert reasonable_max =
     (if isna_all series then series
      else case median series of
        None \<Rightarrow> series
      | Some median_val \<Rightarrow>
          let filled_series = fillna series median_val;
              min_val = Min (set filled_series);
              max_val = Max (set filled_series);
              normalized =
                (if min_val = max_val then map (\<lambda>x. Some (1 / 2)) filled_series
                 else if (case reasonable_max of None \<Rightarrow> False | Some c \<Rightarrow> max_val > c) then
                   map (\<lambda>x. if x > the reasonable_max then Some 1
                            else float_div (x - min_val) (the reasonable_max - min_val))
                       filled_series
                 else map (\<lambda>x. Some ((x - min_val) / (max_val - min_val))) filled_series);
              normalized = (if invert then map (map_option (\<lambda>x. 1 - x)) normalized
                            else normalized)
          in map2 (\<lambda>raw n. if raw = None then None else n) series normalized)"


text \<open>The population minimum and maximum of a signal: over the values that are present.\<close>

definition pop_min :: "series \<Rightarrow> real" where
  "pop_min s = Min (set (dropna s))"

definition pop_max :: "series \<Rightarrow> real" where
  "pop_max s = Max (set (dropna s))"

section \<open>normalize_and_calculate_pri\<close>

text \<open>A row of the raw signal table. A key that a row's dictionary lacks is \<open>None\<close> in
  \<open>LLM_Judge_Score\<close>; the column exists when some row has the key.\<close>

record signals_row =
  PID :: string
  Duration_seconds :: "real option"
  LowQualityTag_Perc :: "real option"
  UniversalDisagreement_Perc :: "real option"
  ASC_Score_Raw :: "real option"
  LLM_Judge_Score :: "real option option"
  LLM_model_scores :: "(string \<times> real option) list"

record pri_row = signals_row +
  Duration_Norm :: "real option"
  LowQualityTag_Norm :: "real option"
  UniversalDisagreement_Norm :: "real option"
  ASC_Norm :: "real option"
  LLM_Judge_Norm :: "real option"
  PRI_Score_Heuristic :: "real option"
  PRI_Score_Enhanced :: "real option"
  PRI_Score :: "real option"
  PRI_Scale_1_5 :: "real option"

definition llm_column_present :: "signals_row list \<Rightarrow> bool" where
  "llm_column_present df = list_ex (\<lambda>r. LLM_Judge_Score r \<noteq> None) df"

definition llm_column :: "signals_row list \<Rightarrow> series" where
  "llm_column df = map (\<lambda>r. case LLM_Judge_Score r of None \<Rightarrow> None | Some v \<Rightarrow> v) df"

definition asc_available :: "signals_row list \<Rightarrow> bool" where
  "asc_available df = (\<not> isna_all (map ASC_Score_Raw df))"

definition llm_judge_available :: "signals_row list \<Rightarrow> bool" where
  "llm_judge_available df = (llm_column_present df \<and> \<not> isna_all (llm_column df))"

text \<open>The two weight dictionaries, with the ASC weight redistributed when no ASC score
  is available.\<close>

definition heuristic_weights :: "config \<Rightarrow> bool \<Rightarrow> (string \<times> real) list" where
  "heuristic_weights cfg asc_avail =
     (if asc_avail then
        [(''Duration_Norm'', DURATION_WEIGHT cfg),
         (''LowQualityTag_Norm'', LOW_QUALITY_TAG_WEIGHT cfg),
         (''UniversalDisagreement_Norm'', UNIVERSAL_DISAGREEMENT_WEIGHT cfg),
         (''ASC_Norm'', ASC_WEIGHT cfg)]
      else
        let asc_redistribution = ASC_WEIGHT cfg / 3
        in [(''Duration_Norm'', DURATION_WEIGHT cfg + asc_redistribution),
            (''LowQualityTag_Norm'', LOW_QUALITY_TAG_WEIGHT cfg + asc_redistribution),
            (''UniversalDisagreement_Norm'', UNIVERSAL_DISAGREEMENT_WEIGHT cfg + asc_redistribution)])"

definition enhanced_weights :: "config \<Rightarrow> bool \<Rightarrow> (string \<times> real) list" where
  "enhanced_weights cfg asc_avail =
     (if asc_avail then
        [(''Duration_Norm'', DURATION_WEIGHT_LLM cfg),
         (''LowQualityTag_Norm'', LOW_QUALITY_TAG_WEIGHT_LLM cfg),
         (''UniversalDisagreement_Norm'', UNIVERSAL_DISAGREEMENT_WEIGHT_LLM cfg),
         (''ASC_Norm'', ASC_WEIGHT_LLM cfg),
         (''LLM_Judge_Norm'', LLM_JUDGE_WEIGHT cfg)]
      else
        let asc_weight_redistribution = ASC_WEIGHT_LLM cfg / 4
        in [(''Duration_Norm'', DURATION_WEIGHT_LLM cfg + asc_weight_redistribution),
            (''LowQualityTag_Norm'', LOW_QUALITY_TAG_WEIGHT_LLM cfg + asc_weight_redistribution),
            (''UniversalDisagreement_Norm'',
               UNIVERSAL_DISAGREEMENT_WEIGHT_LLM cfg + asc_weight_redistribution),
            (''LLM_Judge_Norm'', LLM_JUDGE_WEIGHT cfg + asc_weight_redistribution)])"

text \<open>Arithmetic on column entries: NaN is absorbing.\<close>

definition nan_mul :: "real option \<Rightarrow> real \<Rightarrow> real option" where
  "nan_mul x w = map_option (\<lambda>v. v * w) x"

definition nan_add :: "real option \<Rightarrow> real option \<Rightarrow> real option" where
  "nan_add x y = (case (x, y) of (Some a, Some b) \<Rightarrow> Some (a + b) | _ \<Rightarrow> None)"

text \<open>The weighted sum the source writes out term by term: one product per entry of
  the weight dictionary, in its order.\<close>

fun weighted_sum :: "(string \<times> real) list \<Rightarrow> (string \<Rightarrow> real option) \<Rightarrow> real option" where
  "weighted_sum [] col = Some 0"
| "weighted_sum [(k, w)] col = nan_mul (col k) w"
| "weighted_sum ((k, w) # rest) col = nan_add (nan_mul (col k) w) (weighted_sum rest col)"

definition norm_columns ::
  "real option \<Rightarrow> real option \<Rightarrow> real option \<Rightarrow> real option \<Rightarrow> real option
     \<Rightarrow> string \<Rightarrow> real option" where
  "norm_columns d l u a j k =
     (if k = ''Duration_Norm'' then d
      else if k = ''LowQualityTag_Norm'' then l
      else if k = ''UniversalDisagreement_Norm'' then u
      else if k = ''ASC_Norm'' then a
      else if k = ''LLM_Judge_Norm'' then j
      else None)"

text \<open>One row of the result: the normalised entries of the row, the heuristic score,
  the enhanced score when the judge is available, the primary score and its 1-5 scale.
  A column that the source does not create is \<open>None\<close>.\<close>

definition fuse_row ::
  "config \<Rightarrow> bool \<Rightarrow> bool \<Rightarrow> signals_row \<Rightarrow> real option \<Rightarrow> real option \<Rightarrow> real option
     \<Rightarrow> real option \<Rightarrow> real option \<Rightarrow> pri_row" where
  "fuse_row cfg asc_avail llm_avail r d l u a j =
     (let col = norm_columns d l u a j;
          heuristic = weighted_sum (heuristic_weights cfg asc_avail) col;
          enhanced = (if llm_avail then weighted_sum (enhanced_weights cfg asc_avail) col
                      else None);
          score = (if llm_avail then enhanced else heuristic)
      in \<lparr>PID = PID r,
          Duration_seconds = Duration_seconds r,
          LowQualityTag_Perc = LowQualityTag_Perc r,
          UniversalDisagreement_Perc = UniversalDisagreement_Perc r,
          ASC_Score_Raw = ASC_Score_Raw r,
          LLM_Judge_Score = LLM_Judge_Score r,
          LLM_model_scores = LLM_model_scores r,
          Duration_Norm = d,
          LowQualityTag_Norm = l,
          UniversalDisagreement_Norm = u,
          ASC_Norm = a,
          LLM_Judge_Norm = j,
          PRI_Score_Heuristic = heuristic,
          PRI_Score_Enhanced = enhanced,
          PRI_Score = score,
          PRI_Scale_1_5 = nan_add (nan_mul score 4) (Some 1)\<rparr>)"

definition normalize_and_calculate_pri :: "signals_row list \<Rightarrow> config \<Rightarrow> pri_row list" where
  "normalize_and_calculate_pri pri_signals_df cfg =
     (let duration_norm = min_max_normalize (map Duration_seconds pri_signals_df) False
                            (Some (DURATION_REASONABLE_MAX cfg));
          low_quality_norm = min_max_normalize (map LowQualityTag_Perc pri_signals_df) True None;
          universal_norm =
            min_max_normalize (map UniversalDisagreement_Perc pri_signals_df) True None;
          asc_avail = asc_available pri_signals_df;
          llm_avail = llm_judge_available pri_signals_df;
          asc_norm = (if asc_avail
                      then min_max_normalize (map ASC_Score_Raw pri_signals_df) True None
                      else map (\<lambda>r. None) pri_signals_df);
          llm_norm = (if llm_avail
                      then min_max_normalize (llm_column pri_signals_df) False None
                      else map (\<lambda>r. None) pri_signals_df)
      in map (\<lambda>i. fuse_row cfg asc_avail llm_avail (pri_signals_df ! i)
                    (duration_norm ! i) (low_quality_norm ! i) (universal_norm ! i)
                    (asc_norm ! i) (llm_norm ! i))
           [0 ..< length pri_signals_df])"


text \<open>The value a present entry \<open>v\<close> of a column normalises to, written with the
  population minimum and maximum.\<close>

definition normalized_value :: "series \<Rightarrow> bool \<Rightarrow> real option \<Rightarrow> real \<Rightarrow> real option" where
  "normalized_value s invert reasonable_max v =
     (let n = (if pop_min s = pop_max s then Some (1 / 2)
               else if (case reasonable_max of None \<Rightarrow> False | Some c \<Rightarrow> pop_max s > c) then
                 (if v > the reasonable_max then Some 1
                  else float_div (v - pop_min s) (the reasonable_max - pop_min s))
               else Some ((v - pop_min s) / (pop_max s - pop_min s)))
      in if invert then map_option (\<lambda>x. 1 - x) n else n)"

text \<open>A normalised entry that is present and lies in the unit interval.\<close>

definition in_unit :: "real option \<Rightarrow> bool" where
  "in_unit x = (case x of None \<Rightarrow> False | Some v \<Rightarrow> 0 \<le> v \<and> v \<le> 1)"

text \<open>The configuration's contract: every weight is non-negative, the four heuristic
  weights sum to 1 and the five enhanced weights sum to 1.\<close>

definition valid_weights :: "config \<Rightarrow> bool" where
  "valid_weights cfg =
     (0 \<le> DURATION_WEIGHT cfg \<and> 0 \<le> LOW_QUALITY_TAG_WEIGHT cfg
      \<and> 0 \<le> UNIVERSAL_DISAGREEMENT_WEIGHT cfg \<and> 0 \<le> ASC_WEIGHT cfg
      \<and> DURATION_WEIGHT cfg + LOW_QUALITY_TAG_WEIGHT cfg
          + UNIVERSAL_DISAGREEMENT_WEIGHT cfg + ASC_WEIGHT cfg = 1
      \<and> 0 \<le> DURATION_WEIGHT_LLM cfg \<and> 0 \<le> LOW_QUALITY_TAG_WEIGHT_LLM cfg
      \<and> 0 \<le> UNIVERSAL_DISAGREEMENT_WEIGHT_LLM cfg \<and> 0 \<le> ASC_WEIGHT_LLM cfg
      \<and> 0 \<le> LLM_JUDGE_WEIGHT cfg
      \<and> DURATION_WEIGHT_LLM cfg + LOW_QUALITY_TAG_WEIGHT_LLM cfg
          + UNIVERSAL_DISAGREEMENT_WEIGHT_LLM cfg + ASC_WEIGHT_LLM cfg
          + LLM_JUDGE_WEIGHT cfg = 1)"

text \<open>Example signal tables: three participants, the third without an ASC score; and
  the same participants when no ASC score exists at all but the judge has scored.\<close>

definition example_signals :: "signals_row list" where
  "example_signals =
     [\<lparr>PID = ''p1'', Duration_seconds = Some 600, LowQualityTag_Perc = Some 0,
       UniversalDisagreement_Perc = Some (1 / 4), ASC_Score_Raw = Some (1 / 10),
       LLM_Judge_Score = None, LLM_model_scores = []\<rparr>,
      \<lparr>PID = ''p2'', Duration_seconds = Some 1800, LowQualityTag_Perc = Some (1 / 2),
       UniversalDisagreement_Perc = Some 0, ASC_Score_Raw = Some (3 / 10),
       LLM_Judge_Score = None, LLM_model_scores = []\<rparr>,
      \<lparr>PID = ''p3'', Duration_seconds = Some 6000, LowQualityTag_Perc = Some (1 / 4),
       UniversalDisagreement_Perc = Some (1 / 2), ASC_Score_Raw = None,
       LLM_Judge_Score = None, LLM_model_scores = []\<rparr>]"

definition example_signals_no_asc :: "signals_row list" where
  "example_signals_no_asc =
     [\<lparr>PID = ''p1'', Duration_seconds = Some 600, LowQualityTag_Perc = Some 0,
       UniversalDisagreement_Perc = Some (1 / 4), ASC_Score_Raw = None,
       LLM_Judge_Score = Some (Some (4 / 5)), LLM_model_scores = []\<rparr>,
      \<lparr>PID = ''p2'', Duration_seconds = Some 1800, LowQualityTag_Perc = Some (1 / 2),
       UniversalDisagreement_Perc = Some 0, ASC_Score_Raw = None,
       LLM_Judge_Score = Some (Some (1 / 5)), LLM_model_scores = []\<rparr>]"

section \<open>identify_unreliable_participants\<close>

text \<open>\<open>Series.quantile(q)\<close> with linear interpolation, on a non-empty list of values
  and \<open>0 \<le> q \<le> 1\<close>: position \<open>q * (n - 1)\<close> in the sorted values.\<close>

definition quantile :: "real list \<Rightarrow> real \<Rightarrow> real" where
  "quantile vs q =
     (let sorted_vs = sort vs;
          n = length sorted_vs;
          pos = q * real (n - 1);
          lo = nat \<lfloor>pos\<rfloor>;
          hi = min (lo + 1) (n - 1)
      in sorted_vs ! lo + (pos - real lo) * (sorted_vs ! hi - sorted_vs ! lo))"

text \<open>Comparisons of a column entry with a number: false on NaN.\<close>

definition nan_less :: "real option \<Rightarrow> real \<Rightarrow> bool" where
  "nan_less x b = (case x of None \<Rightarrow> False | Some v \<Rightarrow> v < b)"

definition nan_le :: "real option \<Rightarrow> real \<Rightarrow> bool" where
  "nan_le x b = (case x of None \<Rightarrow> False | Some v \<Rightarrow> v \<le> b)"

text \<open>
  The function returns the list of participant IDs, or raises \<open>ValueError\<close> for an
  unknown method (and, inside \<open>quantile\<close>, for a percentile outside 0..100). The second
  component of the result is the table as the call leaves it: the function only reads
  columns, builds masks and selects rows into new objects, and assigns to nothing in
  \<open>pri_signals_df\<close>.
\<close>

definition identify_unreliable_participants ::
  "pri_row list \<Rightarrow> string \<Rightarrow> real option \<Rightarrow> (py_error + string list) \<times> pri_row list" where
  "identify_unreliable_participants pri_signals_df method threshold =
     (let valid_scores = dropna (map PRI_Scale_1_5 pri_signals_df)
      in if length valid_scores = 0 then (Inr [], pri_signals_df)
         else if method = ''outliers'' then
           let q1 = quantile valid_scores (25 / 100);
               q3 = quantile valid_scores (75 / 100);
               iqr = q3 - q1;
               lower_bound = q1 - (3 / 2) * iqr
           in (Inr (map PID (filter (\<lambda>r. nan_less (PRI_Scale_1_5 r) lower_bound)
                               pri_signals_df)),
               pri_signals_df)
         else if method = ''percentile'' then
           let threshold = (case threshold of None \<Rightarrow> 10 | Some t \<Rightarrow> t)
           in if threshold / 100 < 0 \<or> 1 < threshold / 100 then (Inl ValueError, pri_signals_df)
              else
                let percentile_threshold = quantile valid_scores (threshold / 100)
                in (Inr (map PID (filter (\<lambda>r. nan_le (PRI_Scale_1_5 r) percentile_threshold)
                                    pri_signals_df)),
                    pri_signals_df)
         else if method = ''threshold'' then
           let threshold = (case threshold of None \<Rightarrow> 5 / 2 | Some t \<Rightarrow> t)
           in (Inr (map PID (filter (\<lambda>r. nan_le (PRI_Scale_1_5 r) threshold) pri_signals_df)),
               pri_signals_df)
         else (Inl ValueError, pri_signals_df))"

text \<open>In the words of the specification: the quartiles of the non-missing 1-5-scale scores and the
  lower fence \<open>Q1 - 1.5 * IQR\<close>.\<close>

definition Q1 :: "pri_row list \<Rightarrow> real" where
  "Q1 df = quantile (dropna (map PRI_Scale_1_5 df)) (1 / 4)"

definition Q3 :: "pri_row list \<Rightarrow> real" where
  "Q3 df = quantile (dropna (map PRI_Scale_1_5 df)) (3 / 4)"

definition IQR :: "pri_row list \<Rightarrow> real" where
  "IQR df = Q3 df - Q1 df"

definition strictly_below_fence :: "pri_row list \<Rightarrow> pri_row \<Rightarrow> bool" where
  "strictly_below_fence df r =
     (case PRI_Scale_1_5 r of None \<Rightarrow> False | Some x \<Rightarrow> x < Q1 df - 1.5 * IQR df)"

text \<open>A table that carries only a participant ID and a 1-5-scale score, for examples.\<close>

definition scored :: "string \<Rightarrow> real option \<Rightarrow> pri_row" where
  "scored p x =
     \<lparr>PID = p, Duration_seconds = None, LowQualityTag_Perc = None,
      UniversalDisagreement_Perc = None, ASC_Score_Raw = None, LLM_Judge_Score = None,
      LLM_model_scores = [], Duration_Norm = None, LowQualityTag_Norm = None,
      UniversalDisagreement_Norm = None, ASC_Norm = None, LLM_Judge_Norm = None,
      PRI_Score_Heuristic = None, PRI_Score_Enhanced = None,
      PRI_Score = map_option (\<lambda>v. (v - 1) / 4) x, PRI_Scale_1_5 = x\<rparr>"

definition example_scores :: "pri_row list" where
  "example_scores =
     [scored ''a'' (Some 4), scored ''b'' (Some 1), scored ''c'' None, scored ''d'' (Some 4),
      scored ''e'' (Some (9 / 2)), scored ''f'' (Some 4), scored ''g'' (Some 5),
      scored ''h'' (Some 4), scored ''i'' (Some (9 / 2))]"

definition spec_scores :: "pri_row list" where
  "spec_scores =
     [scored ''s0'' (Some 1), scored ''s1'' (Some 2), scored ''s2'' (Some 2),
      scored ''s3'' (Some 3), scored ''s4'' (Some 3), scored ''s5'' (Some 3),
      scored ''s6'' (Some 4), scored ''s7'' (Some 4), scored ''s8'' (Some 5),
      scored ''s9'' (Some 9)]"

section \<open>calculate_all_pri_signals\<close>

text \<open>\<open>binary_df['Participant ID'].unique()\<close> in \<open>load_data\<close>: the distinct values in
  order of first appearance; \<open>seen\<close> is the table of values met so far.\<close>

fun unique_acc :: "string list \<Rightarrow> string list \<Rightarrow> string list" where
  "unique_acc seen [] = []"
| "unique_acc seen (x # xs) =
     (if x \<in> set seen then unique_acc seen xs else x # unique_acc (x # seen) xs)"

definition unique :: "string list \<Rightarrow> string list" where
  "unique xs = unique_acc [] xs"

definition load_data_all_participant_ids :: "binary_row list \<Rightarrow> string list" where
  "load_data_all_participant_ids binary_df = unique (map Participant_ID binary_df)"

text \<open>The slice \<open>xs[:k]\<close> for a Python integer \<open>k\<close>: a negative \<open>k\<close> counts from the end.\<close>

definition py_slice_to :: "'a list \<Rightarrow> int \<Rightarrow> 'a list" where
  "py_slice_to xs k = (if 0 \<le> k then take (nat k) xs else take (nat (int (length xs) + k)) xs)"

text \<open>
  The four signal calculators, as functions of the participant ID that return the
  signal or raise. (\<open>duration_seconds\<close> stands for \<open>calculate_duration\<close> followed by the
  conversion to seconds, \<open>asc_raw\<close> for \<open>calculate_asc_score\<close> on the loaded tables.)
\<close>

record signal_calculators =
  duration_seconds :: "string \<Rightarrow> py_error + real option"
  low_quality_tag_percentage :: "string \<Rightarrow> py_error + real option"
  universal_disagreement_percentage :: "string \<Rightarrow> py_error + real option"
  asc_raw :: "string \<Rightarrow> py_error + real option"

text \<open>The body of the \<open>try\<close> block up to the result dictionary: the calculators run in
  order and the first exception leaves the block.\<close>

definition compute_signals ::
  "signal_calculators \<Rightarrow> string
     \<Rightarrow> py_error + (real option \<times> real option \<times> real option \<times> real option)" where
  "compute_signals calc participant_id =
     (case duration_seconds calc participant_id of
        Inl e \<Rightarrow> Inl e
      | Inr duration \<Rightarrow>
          (case low_quality_tag_percentage calc participant_id of
             Inl e \<Rightarrow> Inl e
           | Inr low_quality_perc \<Rightarrow>
               (case universal_disagreement_percentage calc participant_id of
                  Inl e \<Rightarrow> Inl e
                | Inr universal_disagreement_perc \<Rightarrow>
                    (case asc_raw calc participant_id of
                       Inl e \<Rightarrow> Inl e
                     | Inr asc \<Rightarrow>
                         Inr (duration, low_quality_perc, universal_disagreement_perc, asc)))))"

definition error_dict :: "bool \<Rightarrow> string \<Rightarrow> signals_row" where
  "error_dict enable_llm_judge participant_id =
     \<lparr>PID = participant_id, Duration_seconds = None, LowQualityTag_Perc = None,
      UniversalDisagreement_Perc = None, ASC_Score_Raw = None,
      LLM_Judge_Score = (if enable_llm_judge then Some None else None),
      LLM_model_scores = []\<rparr>"

text \<open>One pass of the loop body: the result dictionary, or the error dictionary when
  the \<open>try\<close> block raised (\<open>except Exception\<close>).\<close>

definition participant_result :: "signal_calculators \<Rightarrow> bool \<Rightarrow> string \<Rightarrow> signals_row" where
  "participant_result calc enable_llm_judge participant_id =
     (case compute_signals calc participant_id of
        Inr (duration, low_quality_perc, universal_disagreement_perc, asc) \<Rightarrow>
          \<lparr>PID = participant_id, Duration_seconds = duration,
           LowQualityTag_Perc = low_quality_perc,
           UniversalDisagreement_Perc = universal_disagreement_perc,
           ASC_Score_Raw = asc,
           LLM_Judge_Score = (if enable_llm_judge then Some None else None),
           LLM_model_scores = []\<rparr>
      | Inl e \<Rightarrow> error_dict enable_llm_judge participant_id)"

fun signals_loop ::
  "signal_calculators \<Rightarrow> bool \<Rightarrow> string list \<Rightarrow> signals_row list \<Rightarrow> signals_row list" where
  "signals_loop calc enable_llm_judge [] results = results"
| "signals_loop calc enable_llm_judge (participant_id # rest) results =
     signals_loop calc enable_llm_judge rest
       (results @ [participant_result calc enable_llm_judge participant_id])"

text \<open>The batch judge stage writes each row's judge score (0.5 when the batch has no
  entry for the participant) and one column per judge model.\<close>

definition clean_model_name :: "string \<Rightarrow> string" where
  "clean_model_name model_name =
     map (\<lambda>c. if c = CHR ''/'' \<or> c = CHR ''-'' then CHR ''_'' else c) model_name"

fun dict_set :: "string \<Rightarrow> 'v \<Rightarrow> (string \<times> 'v) list \<Rightarrow> (string \<times> 'v) list" where
  "dict_set k v [] = [(k, v)]"
| "dict_set k v ((k', v') # kvs) =
     (if k = k' then (k, v) # kvs else (k', v') # dict_set k v kvs)"

definition apply_llm_result ::
  "(string \<rightharpoonup> real \<times> (string \<times> real option) list) \<Rightarrow> signals_row \<Rightarrow> signals_row" where
  "apply_llm_result llm_results result_dict =
     (case llm_results (PID result_dict) of
        Some (llm_score, individual_scores) \<Rightarrow>
          result_dict
            \<lparr>LLM_Judge_Score := Some (Some llm_score),
             LLM_model_scores :=
               foldl (\<lambda>cols (model_name, confidence_score).
                        dict_set (''LLM_'' @ clean_model_name model_name) confidence_score cols)
                 (LLM_model_scores result_dict) individual_scores\<rparr>
      | None \<Rightarrow> result_dict\<lparr>LLM_Judge_Score := Some (Some (1 / 2))\<rparr>)"

text \<open>The participants the function processes: all of them, or the first
  \<open>min(participant_limit, len(all_participant_ids))\<close>.\<close>

definition processed_participant_ids :: "string list \<Rightarrow> int option \<Rightarrow> string list" where
  "processed_participant_ids all_participant_ids participant_limit =
     (case participant_limit of
        None \<Rightarrow> all_participant_ids
      | Some limit \<Rightarrow>
          py_slice_to all_participant_ids (min limit (int (length all_participant_ids))))"

text \<open>
  \<open>calculate_all_pri_signals\<close>. \<open>evaluatable_questions_found\<close> says whether the discussion
  guide gave any question (otherwise the judge is switched off), and \<open>llm_results\<close> is
  the dictionary that the batch judge run returns.
\<close>

definition calculate_all_pri_signals ::
  "string list \<Rightarrow> signal_calculators \<Rightarrow> int option \<Rightarrow> bool \<Rightarrow> bool
     \<Rightarrow> (string \<rightharpoonup> real \<times> (string \<times> real option) list) \<Rightarrow> signals_row list" where
  "calculate_all_pri_signals all_participant_ids calc participant_limit enable_llm_judge
       evaluatable_questions_found llm_results =
     (let all_participant_ids = processed_participant_ids all_participant_ids participant_limit;
          enable_llm_judge = (enable_llm_judge \<and> evaluatable_questions_found);
          results = signals_loop calc enable_llm_judge all_participant_ids []
      in if enable_llm_judge then map (apply_llm_result llm_results) results else results)"

text \<open>Example calculators: the duration of participant \<open>p2\<close> cannot be computed.\<close>

definition example_calculators :: signal_calculators where
  "example_calculators =
     \<lparr>duration_seconds = (\<lambda>p. if p = ''p2'' then Inl KeyError else Inr (Some 600)),
      low_quality_tag_percentage = (\<lambda>p. Inr (Some 0)),
      universal_disagreement_percentage = (\<lambda>p. Inr (Some (1 / 4))),
      asc_raw = (\<lambda>p. Inr (calculate_asc_score p example_votes example_consensus))\<rparr>"


text \<open>Some calculator raises for the participant.\<close>

definition raises :: "signal_calculators \<Rightarrow> string \<Rightarrow> bool" where
  "raises calc participant_id =
     (isl (duration_seconds calc participant_id)
      \<or> isl (low_quality_tag_percentage calc participant_id)
      \<or> isl (universal_disagreement_percentage calc participant_id)
      \<or> isl (asc_raw calc participant_id))"

definition example_llm_results :: "string \<rightharpoonup> real \<times> (string \<times> real option) list" where
  "example_llm_results = map_of [(''p1'', (4 / 5, [(''openai/gpt-4o-mini'', Some (4 / 5))]))]"

section \<open>batch_process_llm_judge: the schedule of judge requests\<close>

text \<open>
  The constants of \<open>batch_process_llm_judge\<close> and the model list of \<open>LLMJudgeConfig\<close>.
\<close>

record llm_params =
  BATCH_SIZE :: nat
  MAX_CONCURRENT_REQUESTS :: nat
  models :: "string list"

definition source_params :: llm_params where
  "source_params =
     \<lparr>BATCH_SIZE = 100, MAX_CONCURRENT_REQUESTS = 200,
      models = [''anthropic/claude-sonnet-4'', ''openai/gpt-4o-mini'',
                ''google/gemini-2.5-flash-preview'']\<rparr>"

text \<open>The batches: \<open>participant_ids[start_idx:end_idx]\<close> for each batch index.\<close>

definition batches :: "nat \<Rightarrow> 'p list \<Rightarrow> 'p list list" where
  "batches batch_size participant_ids =
     map (\<lambda>batch_idx. take batch_size (drop (batch_idx * batch_size) participant_ids))
       [0 ..< (length participant_ids + batch_size - 1) div batch_size]"

text \<open>
  \<open>calculate_llm_judge_score\<close> returns at once for a participant without evaluatable
  responses and otherwise starts one \<open>call_llm_judge\<close> task per model, each of which
  posts one request.
\<close>

definition n_calls :: "llm_params \<Rightarrow> ('p \<Rightarrow> bool) \<Rightarrow> 'p \<Rightarrow> nat" where
  "n_calls P has_responses participant_id =
     (if has_responses participant_id then length (models P) else 0)"

text \<open>
  The state of the event loop during \<open>batch_process_llm_judge\<close>: the batches not yet
  started; the tasks of the current batch that wait for the semaphore; the value of the
  semaphore; the tasks inside \<open>async with semaphore\<close>, each with the number of its judge
  requests not yet sent and the number in flight; and the participants whose task is done.
\<close>

record 'p judge_state =
  remaining_batches :: "'p list list"
  waiting :: "'p list"
  permits :: nat
  running :: "('p \<times> nat \<times> nat) list"
  finished :: "'p list"

definition initial :: "llm_params \<Rightarrow> 'p list \<Rightarrow> 'p judge_state" where
  "initial P participant_ids =
     \<lparr>remaining_batches = batches (BATCH_SIZE P) participant_ids, waiting = [],
      permits = MAX_CONCURRENT_REQUESTS P, running = [], finished = []\<rparr>"

text \<open>
  The steps of the event loop. \<open>NextBatch\<close>: the \<open>gather\<close> of the previous batch has
  returned and the tasks of the next batch are created. \<open>Acquire i\<close>: the \<open>i\<close>-th waiting
  task enters \<open>async with semaphore\<close> and starts its judge calls. \<open>Send i\<close>: a call of
  the \<open>i\<close>-th running task posts its request. \<open>Complete i\<close>: a request of that task
  returns (reply, error status or timeout). \<open>Release i\<close>: all calls of the task have
  returned and it leaves \<open>async with semaphore\<close>. A step that is not enabled gives \<open>None\<close>.
\<close>

datatype event = NextBatch | Acquire nat | Send nat | Complete nat | Release nat

fun apply_event ::
  "llm_params \<Rightarrow> ('p \<Rightarrow> bool) \<Rightarrow> 'p judge_state \<Rightarrow> event \<Rightarrow> 'p judge_state option" where
  "apply_event P has_responses s NextBatch =
     (if waiting s = [] \<and> running s = [] then
        (case remaining_batches s of
           [] \<Rightarrow> None
         | b # bs \<Rightarrow> Some (s\<lparr>remaining_batches := bs, waiting := b\<rparr>))
      else None)"
| "apply_event P has_responses s (Acquire i) =
     (if i < length (waiting s) \<and> 0 < permits s then
        Some (s\<lparr>waiting := take i (waiting s) @ drop (Suc i) (waiting s),
                permits := permits s - 1,
                running := running s @ [(waiting s ! i, n_calls P has_responses (waiting s ! i), 0)]\<rparr>)
      else None)"
| "apply_event P has_responses s (Send i) =
     (if i < length (running s) then
        (case running s ! i of
           (p, unsent, in_flight) \<Rightarrow>
             if 0 < unsent
             then Some (s\<lparr>running := (running s)[i := (p, unsent - 1, in_flight + 1)]\<rparr>)
             else None)
      else None)"
| "apply_event P has_responses s (Complete i) =
     (if i < length (running s) then
        (case running s ! i of
           (p, unsent, in_flight) \<Rightarrow>
             if 0 < in_flight
             then Some (s\<lparr>running := (running s)[i := (p, unsent, in_flight - 1)]\<rparr>)
             else None)
      else None)"
| "apply_event P has_responses s (Release i) =
     (if i < length (running s) then
        (case running s ! i of
           (p, unsent, in_flight) \<Rightarrow>
             if unsent = 0 \<and> in_flight = 0
             then Some (s\<lparr>running := take i (running s) @ drop (Suc i) (running s),
                           permits := permits s + 1,
                           finished := finished s @ [p]\<rparr>)
             else None)
      else None)"

fun run ::
  "llm_params \<Rightarrow> ('p \<Rightarrow> bool) \<Rightarrow> 'p judge_state \<Rightarrow> event list \<Rightarrow> 'p judge_state option" where
  "run P has_responses s [] = Some s"
| "run P has_responses s (e # es) =
     (case apply_event P has_responses s e of
        None \<Rightarrow> None
      | Some s' \<Rightarrow> run P has_responses s' es)"

text \<open>The number of judge requests in flight, and of tasks inside the semaphore.\<close>

definition requests_in_flight :: "'p judge_state \<Rightarrow> nat" where
  "requests_in_flight s = sum_list (map (\<lambda>(p, unsent, in_flight). in_flight) (running s))"

text \<open>A schedule for one batch of \<open>n\<close> participants: the batch starts, and each task in
  turn enters the semaphore and each of its \<open>k\<close> calls posts its request; no reply has
  arrived yet.\<close>

definition all_sent_schedule :: "nat \<Rightarrow> nat \<Rightarrow> event list" where
  "all_sent_schedule n k =
     NextBatch # concat (map (\<lambda>i. Acquire 0 # replicate k (Send i)) [0 ..< n])"


text \<open>What the semaphore maintains: its value and the number of tasks inside it add up to
  the bound, and a task never has more requests (unsent or in flight) than models.\<close>

definition semaphore_inv :: "llm_params \<Rightarrow> 'p judge_state \<Rightarrow> bool" where
  "semaphore_inv P s =
     (permits s + length (running s) = MAX_CONCURRENT_REQUESTS P
      \<and> (\<forall>(p, unsent, in_flight) \<in> set (running s). unsent + in_flight \<le> length (models P)))"

section \<open>Properties of the vote normalisation\<close>

lemma py_lower_AGREE: "py_lower ''AGREE'' = ''agree''"
  by code_simp

text \<open>
  C7, as stated, fails: the all-capitals casing \<open>AGREE\<close> of "agree" is not a key of the
  dictionary and becomes missing instead of 1.
\<close>

theorem C7_case_insensitive_counterexample:
  "py_lower ''AGREE'' = ''agree'' \<and> load_data_VoteNumeric (CStr ''AGREE'') \<noteq> Some 1"
  by (simp add: py_lower_AGREE vote_dict_def)

text \<open>
  C7, amended: exactly the strings \<open>Agree\<close> and \<open>agree\<close> map to 1, exactly
  \<open>Disagree\<close> and \<open>disagree\<close> map to 0, and every other vote value (any other casing,
  any other string, a number, a missing cell) becomes missing.
\<close>

theorem C7_vote_normalisation_exact:
  "load_data_VoteNumeric v =
     (if v = CStr ''Agree'' \<or> v = CStr ''agree'' then Some 1
      else if v = CStr ''Disagree'' \<or> v = CStr ''disagree'' then Some 0
      else None)"
  by (cases v) (auto simp: vote_dict_def)

theorem C7_vote_normalisation_exact_witness:
  "load_data_VoteNumeric (CStr ''Agree'') = Some 1
   \<and> load_data_VoteNumeric (CStr ''disagree'') = Some 0
   \<and> load_data_VoteNumeric (CStr ''DISAGREE'') = None
   \<and> load_data_VoteNumeric (CNum 1) = None"
  using C7_vote_normalisation_exact [of "CStr ''Agree''"]
        C7_vote_normalisation_exact [of "CStr ''disagree''"]
        C7_vote_normalisation_exact [of "CStr ''DISAGREE''"]
        C7_vote_normalisation_exact [of "CNum 1"]
  by simp

section \<open>Properties of calculate_asc_score\<close>

lemma asc_loop_counts:
  "asc_loop cd rs (a, t) =
     (a + length (filter (against_consensus cd) (filter (\<lambda>r. VoteNumeric r \<noteq> None) rs)),
      t + length (filter (\<lambda>r. VoteNumeric r \<noteq> None) rs))"
  by (induction rs arbitrary: a t) (auto simp: against_consensus_def split: option.splits)

lemma valid_consensus_votes_alt:
  "valid_consensus_votes p df cd =
     filter (\<lambda>r. VoteNumeric r \<noteq> None)
       (filter (\<lambda>r. Thought_ID r \<in> strong_agree_thoughts cd \<union> strong_disagree_thoughts cd)
          (filter (\<lambda>r. Participant_ID r = p) df))"
  by (induction df) (auto simp: valid_consensus_votes_def)

lemma calculate_asc_score_eq:
  "calculate_asc_score p df cd =
     (if valid_consensus_votes p df cd = [] then None
      else Some (real (length (filter (against_consensus cd) (valid_consensus_votes p df cd)))
                 / real (length (valid_consensus_votes p df cd))))"
proof (cases "strong_agree_thoughts cd \<union> strong_disagree_thoughts cd = {}")
  case True
  then have "valid_consensus_votes p df cd = []"
    by (simp add: valid_consensus_votes_def)
  with True show ?thesis
    by (simp add: calculate_asc_score_def)
next
  case False
  define cv where
    "cv = filter (\<lambda>r. Thought_ID r \<in> strong_agree_thoughts cd \<union> strong_disagree_thoughts cd)
            (filter (\<lambda>r. Participant_ID r = p) df)"
  have valid: "valid_consensus_votes p df cd = filter (\<lambda>r. VoteNumeric r \<noteq> None) cv"
    by (simp add: valid_consensus_votes_alt cv_def)
  have score: "calculate_asc_score p df cd =
      (if cv = [] then None
       else if length (filter (\<lambda>r. VoteNumeric r \<noteq> None) cv) = 0 then None
       else Some (real (length (filter (against_consensus cd) (filter (\<lambda>r. VoteNumeric r \<noteq> None) cv)))
                  / real (length (filter (\<lambda>r. VoteNumeric r \<noteq> None) cv))))"
    using False
    unfolding calculate_asc_score_def Let_def asc_loop_counts cv_def [symmetric]
    by auto
  show ?thesis
  proof (cases "cv = []")
    case True
    then show ?thesis by (simp add: score valid)
  next
    case False
    then show ?thesis by (simp add: score valid)
  qed
qed

text \<open>
  C3: the score is missing exactly when the participant cast no valid vote on a
  consensus item (in particular when both consensus sets are empty); otherwise it is
  the number of against-consensus votes divided by the number of valid consensus votes.
\<close>

theorem C3_asc_score:
  "(calculate_asc_score p df cd = None \<longleftrightarrow> valid_consensus_votes p df cd = [])
   \<and> (strong_agree_thoughts cd \<union> strong_disagree_thoughts cd = {}
        \<longrightarrow> calculate_asc_score p df cd = None)
   \<and> (valid_consensus_votes p df cd \<noteq> [] \<longrightarrow>
        calculate_asc_score p df cd =
          Some (real (length (filter (against_consensus cd) (valid_consensus_votes p df cd)))
                / real (length (valid_consensus_votes p df cd))))"
  by (simp add: calculate_asc_score_eq valid_consensus_votes_def)

text \<open>Three votes on strong-agreement items, two agreeing and one disagreeing: 1/3.\<close>

theorem C3_asc_score_witness:
  "valid_consensus_votes ''p1'' example_votes example_consensus \<noteq> []
   \<and> calculate_asc_score ''p1'' example_votes example_consensus = Some (1 / 3)
   \<and> calculate_asc_score ''p3'' example_votes example_consensus = None"
  using C3_asc_score [of "''p1''" example_votes example_consensus]
        C3_asc_score [of "''p3''" example_votes example_consensus]
  by (simp add: valid_consensus_votes_def against_consensus_def example_votes_def
        example_consensus_def)

section \<open>Properties of parse_percentage\<close>

lemma decimal_float_empty: "decimal_float [] = None"
  by code_simp

lemma decimal_float_73: "decimal_float ''73'' = Some 73"
  by code_simp

lemma decimal_float_12_5: "decimal_float ''12.5'' = Some (25 / 2)"
  by code_simp

lemma decimal_float_abc: "decimal_float ''abc'' = None"
  by code_simp

lemma strip_73_percent: "strip ''73%'' = ''73%''" and rstrip_73_percent: "rstrip ''73%'' (CHR ''%'') = ''73''"
  by code_simp+

lemma strip_dash: "strip ''-'' = ''-''"
  by code_simp

lemma strip_no_break_space: "strip [CHR ''7'', CHR ''3'', CHR ''%'', CHR 0xA0, CHR 0x85] = ''73%''"
  by code_simp

lemma strip_padded: "strip '' 12.5% '' = ''12.5%''"
  and rstrip_padded: "rstrip ''12.5%'' (CHR ''%'') = ''12.5''"
  and strip_abc: "strip ''abc'' = ''abc''"
  and strip_blank: "strip ''  '' = []"
  by code_simp+

lemma parse_percentage_returns: "\<exists>r. parse_percentage py_float value = Inr r"
  by (cases "value")
     (auto simp: parse_percentage_def parse_percentage_try_def Let_def split: option.splits)

lemma parse_percentage_CNum:
  "parse_percentage py_float (CNum v) = Inr (Some (if v > 1 then v / 100 else v))"
  by (simp add: parse_percentage_def parse_percentage_try_def)

lemma parse_percentage_CStr:
  "parse_percentage py_float (CStr s) =
     (if endswith (strip s) (CHR ''%'') then
        Inr (map_option (\<lambda>x. x / 100) (py_float (rstrip (strip s) (CHR ''%''))))
      else if strip s = ''-'' then Inr None
      else Inr (map_option (\<lambda>val. if val > 1 then val / 100 else val) (py_float (strip s))))"
proof -
  have "strip s \<noteq> '' - ''"
  proof
    assume "strip s = '' - ''"
    then have "dropWhile isspace (rev (dropWhile isspace s)) = '' - ''"
      by (simp add: strip_def rev_swap)
    moreover have "isspace (CHR '' '')"
      by code_simp
    ultimately show False
      using hd_dropWhile [of isspace "rev (dropWhile isspace s)"] by simp
  qed
  then show ?thesis
    by (auto simp: parse_percentage_def parse_percentage_try_def Let_def split: option.splits)
qed

text \<open>
  C4: parse_percentage always returns (never raises). A numeric value \<open>v\<close> gives
  \<open>v / 100\<close> when \<open>v > 1\<close> and \<open>v\<close> otherwise; a string ending in the percent sign gives
  the number before it divided by 100; a bare dash or an empty string is missing; any
  string that fails the numeric parse is missing; and the four examples of the
  specification hold. Python's builtin \<open>float\<close> enters through two facts: the empty
  string is not a number, and \<open>float("73") = 73\<close>.
\<close>

theorem C4_parse_percentage:
  assumes "py_float [] = None" and "py_float ''73'' = Some 73"
  shows "(\<exists>r. parse_percentage py_float value = Inr r)
    \<and> parse_percentage py_float CNaN = Inr None
    \<and> parse_percentage py_float (CNum v) = Inr (Some (if v > 1 then v / 100 else v))
    \<and> (endswith (strip s) (CHR ''%'') \<and> py_float (rstrip (strip s) (CHR ''%'')) = Some x
         \<longrightarrow> parse_percentage py_float (CStr s) = Inr (Some (x / 100)))
    \<and> (strip s = ''-'' \<or> strip s = [] \<longrightarrow> parse_percentage py_float (CStr s) = Inr None)
    \<and> (endswith (strip s) (CHR ''%'') \<and> py_float (rstrip (strip s) (CHR ''%'')) = None
         \<longrightarrow> parse_percentage py_float (CStr s) = Inr None)
    \<and> (\<not> endswith (strip s) (CHR ''%'') \<and> py_float (strip s) = None
         \<longrightarrow> parse_percentage py_float (CStr s) = Inr None)
    \<and> (\<not> endswith (strip s) (CHR ''%'') \<and> strip s \<noteq> ''-'' \<and> py_float (strip s) = Some val
         \<longrightarrow> parse_percentage py_float (CStr s) = Inr (Some (if val > 1 then val / 100 else val)))
    \<and> parse_percentage py_float (CStr ''73%'') = Inr (Some (73 / 100))
    \<and> parse_percentage py_float (CStr ''-'') = Inr None
    \<and> parse_percentage py_float (CNum (1 / 2)) = Inr (Some (1 / 2))
    \<and> parse_percentage py_float (CNum 150) = Inr (Some (3 / 2))"
proof -
  have a: "parse_percentage py_float (CStr ''73%'') = Inr (Some (73 / 100))"
    using assms(2)
    by (simp add: parse_percentage_CStr strip_73_percent rstrip_73_percent endswith_def)
  have b: "parse_percentage py_float (CStr ''-'') = Inr None"
    by (simp add: parse_percentage_CStr strip_dash endswith_def)
  have c: "strip s = ''-'' \<or> strip s = [] \<longrightarrow> parse_percentage py_float (CStr s) = Inr None"
    using assms(1) by (auto simp: parse_percentage_CStr endswith_def)
  have d: "\<not> endswith (strip s) (CHR ''%'') \<and> py_float (strip s) = None
         \<longrightarrow> parse_percentage py_float (CStr s) = Inr None"
    by (simp add: parse_percentage_CStr)
  show ?thesis
    using a b c d
    by (simp add: parse_percentage_returns parse_percentage_CNum parse_percentage_CStr
          parse_percentage_def [of py_float CNaN])
qed

theorem C4_parse_percentage_witness:
  "decimal_float [] = None \<and> decimal_float ''73'' = Some 73
   \<and> parse_percentage decimal_float (CStr ''73%'') = Inr (Some (73 / 100))
   \<and> parse_percentage decimal_float (CStr '' 12.5% '') = Inr (Some (1 / 8))
   \<and> parse_percentage decimal_float (CStr ''abc'') = Inr None
   \<and> parse_percentage decimal_float (CStr ''  '') = Inr None
   \<and> parse_percentage decimal_float (CStr [CHR ''7'', CHR ''3'', CHR ''%'', CHR 0xA0, CHR 0x85]) = Inr (Some (73 / 100))
   \<and> parse_percentage decimal_float (CNum 150) = Inr (Some (3 / 2))"
  using C4_parse_percentage [OF decimal_float_empty decimal_float_73,
          of "CStr ''abc''" 150 "'' 12.5% ''" "25 / 2" 0]
        C4_parse_percentage [OF decimal_float_empty decimal_float_73,
          of "CStr ''abc''" 150 "[CHR ''7'', CHR ''3'', CHR ''%'', CHR 0xA0, CHR 0x85]" 73 0]
        C4_parse_percentage [OF decimal_float_empty decimal_float_73,
          of "CStr ''abc''" 150 "''abc''" 0 0]
        C4_parse_percentage [OF decimal_float_empty decimal_float_73,
          of "CStr ''abc''" 150 "''  ''" 0 0]
  by (simp add: decimal_float_empty decimal_float_73 decimal_float_12_5 decimal_float_abc
        strip_padded rstrip_padded strip_abc strip_blank endswith_def
        strip_no_break_space rstrip_73_percent)

section \<open>Properties of min_max_normalize\<close>

lemma set_dropna: "set (dropna s) = {v. Some v \<in> set s}"
  by (induction s rule: dropna.induct) auto

lemma isna_all_iff: "isna_all s \<longleftrightarrow> dropna s = []"
  by (induction s rule: dropna.induct) (auto simp: isna_all_def)

lemma pop_bounds:
  assumes "v \<in> set (dropna s)"
  shows "pop_min s \<le> v" and "v \<le> pop_max s"
  using assms by (simp_all add: pop_min_def pop_max_def)

lemma median_bounds:
  assumes "dropna s \<noteq> []"
  shows "\<exists>m. median s = Some m \<and> pop_min s \<le> m \<and> m \<le> pop_max s"
proof -
  define vs where "vs = sort (dropna s)"
  have ne: "vs \<noteq> []"
    using assms by (metis vs_def length_sort length_0_conv)
  have bound: "pop_min s \<le> vs ! j \<and> vs ! j \<le> pop_max s" if "j < length vs" for j
  proof -
    have "vs ! j \<in> set (dropna s)"
      using that nth_mem [of j vs] by (simp add: vs_def)
    then show ?thesis
      by (simp add: pop_bounds)
  qed
  show ?thesis
  proof (cases "odd (length vs)")
    case True
    have "length vs div 2 < length vs"
      using ne by simp
    then show ?thesis
      using True ne bound [of "length vs div 2"]
      by (simp add: median_def vs_def [symmetric] Let_def)
  next
    case False
    then have len: "2 \<le> length vs"
      using ne by (cases vs) (auto elim: oddE)
    then have "length vs div 2 < length vs" and "length vs div 2 - 1 < length vs"
      by auto
    then have "pop_min s \<le> vs ! (length vs div 2)" "vs ! (length vs div 2) \<le> pop_max s"
        "pop_min s \<le> vs ! (length vs div 2 - 1)" "vs ! (length vs div 2 - 1) \<le> pop_max s"
      using bound by blast+
    then have "pop_min s \<le> (vs ! (length vs div 2 - 1) + vs ! (length vs div 2)) / 2"
        and "(vs ! (length vs div 2 - 1) + vs ! (length vs div 2)) / 2 \<le> pop_max s"
      by simp_all
    moreover have "median s = Some ((vs ! (length vs div 2 - 1) + vs ! (length vs div 2)) / 2)"
      using False ne by (simp add: median_def vs_def [symmetric] Let_def)
    ultimately show ?thesis
      by blast
  qed
qed

lemma fillna_nth:
  "i < length s \<Longrightarrow> fillna s m ! i = (case s ! i of None \<Rightarrow> m | Some v \<Rightarrow> v)"
  by (simp add: fillna_def)

lemma set_fillna_upper: "set (fillna s m) \<subseteq> insert m (set (dropna s))"
  by (induction s rule: dropna.induct) (auto simp: fillna_def)

lemma set_fillna_lower: "set (dropna s) \<subseteq> set (fillna s m)"
  by (induction s rule: dropna.induct) (auto simp: fillna_def)

lemma Min_fillna:
  assumes "dropna s \<noteq> []" and "pop_min s \<le> m"
  shows "Min (set (fillna s m)) = pop_min s"
proof (rule antisym)
  show "Min (set (fillna s m)) \<le> pop_min s"
    unfolding pop_min_def using assms(1) set_fillna_lower [of s m]
    by (intro Min_antimono) auto
  have "Min (insert m (set (dropna s))) \<le> Min (set (fillna s m))"
    using assms(1) set_fillna_upper [of s m] set_fillna_lower [of s m]
    by (intro Min_antimono) auto
  moreover have "Min (insert m (set (dropna s))) = min m (Min (set (dropna s)))"
    using assms(1) by (intro Min_insert) auto
  then have "Min (insert m (set (dropna s))) = pop_min s"
    using assms(2) by (simp add: pop_min_def min_absorb2)
  ultimately show "pop_min s \<le> Min (set (fillna s m))"
    by simp
qed

lemma Max_fillna:
  assumes "dropna s \<noteq> []" and "m \<le> pop_max s"
  shows "Max (set (fillna s m)) = pop_max s"
proof (rule antisym)
  show "pop_max s \<le> Max (set (fillna s m))"
    unfolding pop_max_def using assms(1) set_fillna_lower [of s m]
    by (intro Max_mono) auto
  have "Max (set (fillna s m)) \<le> Max (insert m (set (dropna s)))"
    using assms(1) set_fillna_upper [of s m] set_fillna_lower [of s m]
    by (intro Max_mono) auto
  moreover have "Max (insert m (set (dropna s))) = max m (Max (set (dropna s)))"
    using assms(1) by (intro Max_insert) auto
  then have "Max (insert m (set (dropna s))) = pop_max s"
    using assms(2) by (simp add: pop_max_def max_absorb2)
  ultimately show "Max (set (fillna s m)) \<le> pop_max s"
    by simp
qed

lemma length_min_max_normalize [simp]:
  "length (min_max_normalize s invert reasonable_max) = length s"
  by (auto simp: min_max_normalize_def Let_def fillna_def split: option.splits)

lemma min_max_normalize_nth:
  assumes "\<not> isna_all s" and "i < length s"
  shows "min_max_normalize s invert reasonable_max ! i =
           (case s ! i of None \<Rightarrow> None | Some v \<Rightarrow> normalized_value s invert reasonable_max v)"
proof -
  have ne: "dropna s \<noteq> []"
    using assms(1) by (simp add: isna_all_iff)
  obtain m where m: "median s = Some m" "pop_min s \<le> m" "m \<le> pop_max s"
    using median_bounds [OF ne] by blast
  have mn: "Min (set (fillna s m)) = pop_min s" and mx: "Max (set (fillna s m)) = pop_max s"
    using Min_fillna [OF ne m(2)] Max_fillna [OF ne m(3)] by simp_all
  have len: "length (fillna s m) = length s"
    by (simp add: fillna_def)
  show ?thesis
  proof (cases reasonable_max)
    case None
    then show ?thesis
      using assms len
      by (cases "s ! i")
         (simp_all add: min_max_normalize_def m(1) Let_def mn mx fillna_nth normalized_value_def)
  next
    case (Some c)
    then show ?thesis
      using assms len
      by (cases "s ! i")
         (simp_all add: min_max_normalize_def m(1) Let_def mn mx fillna_nth normalized_value_def)
  qed
qed


section \<open>Properties of the score fusion\<close>

lemma weighted_sum_bounds:
  assumes "\<And>k w. (k, w) \<in> set ws \<Longrightarrow> 0 \<le> w \<and> in_unit (col k)"
  shows "\<exists>t. weighted_sum ws col = Some t \<and> 0 \<le> t \<and> t \<le> sum_list (map snd ws)"
  using assms
proof (induction ws col rule: weighted_sum.induct)
  case (1 col)
  then show ?case by simp
next
  case (2 k w col)
  then have "0 \<le> w" and "in_unit (col k)"
    by auto
  then obtain v where v: "col k = Some v" "0 \<le> v" "v \<le> 1"
    by (auto simp: in_unit_def split: option.splits)
  have "v * w \<le> w"
    using v \<open>0 \<le> w\<close> by (simp add: mult_left_le_one_le)
  then show ?case
    using v \<open>0 \<le> w\<close> by (simp add: nan_mul_def)
next
  case (3 k w p rest col)
  then have "0 \<le> w" and "in_unit (col k)"
    by auto
  then obtain v where v: "col k = Some v" "0 \<le> v" "v \<le> 1"
    by (auto simp: in_unit_def split: option.splits)
  have vw: "v * w \<le> w"
    using v \<open>0 \<le> w\<close> by (simp add: mult_left_le_one_le)
  obtain t where t: "weighted_sum (p # rest) col = Some t" "0 \<le> t"
      "t \<le> sum_list (map snd (p # rest))"
    using 3 by (metis list.set_intros(2))
  show ?case
    using v t vw \<open>0 \<le> w\<close> by (simp add: nan_mul_def nan_add_def)
qed

lemma pri_rows:
  assumes "r \<in> set (normalize_and_calculate_pri df cfg)"
  shows "\<exists>i < length df. \<exists>d l u a j.
            r = fuse_row cfg (asc_available df) (llm_judge_available df) (df ! i) d l u a j"
  using assms by (auto simp: normalize_and_calculate_pri_def Let_def) blast+

lemma fuse_row_scores:
  assumes "r = fuse_row cfg asc_avail llm_avail x d l u a j"
  shows "PRI_Score_Heuristic r =
           weighted_sum (heuristic_weights cfg asc_avail)
             (norm_columns (Duration_Norm r) (LowQualityTag_Norm r)
                (UniversalDisagreement_Norm r) (ASC_Norm r) (LLM_Judge_Norm r))"
    and "PRI_Score_Enhanced r =
           (if llm_avail then
              weighted_sum (enhanced_weights cfg asc_avail)
                (norm_columns (Duration_Norm r) (LowQualityTag_Norm r)
                   (UniversalDisagreement_Norm r) (ASC_Norm r) (LLM_Judge_Norm r))
            else None)"
    and "PRI_Score r = (if llm_avail then PRI_Score_Enhanced r else PRI_Score_Heuristic r)"
    and "PRI_Scale_1_5 r = nan_add (nan_mul (PRI_Score r) 4) (Some 1)"
    and "PID r = PID x"
  using assms by (simp_all add: fuse_row_def Let_def)

lemma heuristic_weights_sum:
  "sum_list (map snd (heuristic_weights cfg b)) =
     DURATION_WEIGHT cfg + LOW_QUALITY_TAG_WEIGHT cfg
       + UNIVERSAL_DISAGREEMENT_WEIGHT cfg + ASC_WEIGHT cfg"
  by (simp add: heuristic_weights_def Let_def)

lemma enhanced_weights_sum:
  "sum_list (map snd (enhanced_weights cfg b)) =
     DURATION_WEIGHT_LLM cfg + LOW_QUALITY_TAG_WEIGHT_LLM cfg
       + UNIVERSAL_DISAGREEMENT_WEIGHT_LLM cfg + ASC_WEIGHT_LLM cfg + LLM_JUDGE_WEIGHT cfg"
  by (simp add: enhanced_weights_def Let_def)

lemma heuristic_weights_nonneg:
  "valid_weights cfg \<Longrightarrow> (k, w) \<in> set (heuristic_weights cfg b) \<Longrightarrow> 0 \<le> w"
  by (auto simp: heuristic_weights_def valid_weights_def Let_def split: if_splits)

lemma enhanced_weights_nonneg:
  "valid_weights cfg \<Longrightarrow> (k, w) \<in> set (enhanced_weights cfg b) \<Longrightarrow> 0 \<le> w"
  by (auto simp: enhanced_weights_def valid_weights_def Let_def split: if_splits)

lemma heuristic_fusion_in_unit:
  assumes "valid_weights cfg" and "in_unit d" and "in_unit l" and "in_unit u"
    and "b \<longrightarrow> in_unit a"
  shows "in_unit (weighted_sum (heuristic_weights cfg b) (norm_columns d l u a j))"
proof -
  have "\<exists>t. weighted_sum (heuristic_weights cfg b) (norm_columns d l u a j) = Some t \<and> 0 \<le> t
          \<and> t \<le> sum_list (map snd (heuristic_weights cfg b))"
  proof (rule weighted_sum_bounds)
    fix k w
    assume kw: "(k, w) \<in> set (heuristic_weights cfg b)"
    then have "in_unit (norm_columns d l u a j k)"
      using assms(2-5) by (auto simp: heuristic_weights_def norm_columns_def Let_def split: if_splits)
    then show "0 \<le> w \<and> in_unit (norm_columns d l u a j k)"
      using heuristic_weights_nonneg [OF assms(1) kw] by simp
  qed
  then show ?thesis
    using assms(1) by (auto simp: heuristic_weights_sum valid_weights_def in_unit_def)
qed

lemma enhanced_fusion_in_unit:
  assumes "valid_weights cfg" and "in_unit d" and "in_unit l" and "in_unit u"
    and "b \<longrightarrow> in_unit a" and "in_unit j"
  shows "in_unit (weighted_sum (enhanced_weights cfg b) (norm_columns d l u a j))"
proof -
  have "\<exists>t. weighted_sum (enhanced_weights cfg b) (norm_columns d l u a j) = Some t \<and> 0 \<le> t
          \<and> t \<le> sum_list (map snd (enhanced_weights cfg b))"
  proof (rule weighted_sum_bounds)
    fix k w
    assume kw: "(k, w) \<in> set (enhanced_weights cfg b)"
    then have "in_unit (norm_columns d l u a j k)"
      using assms(2-6) by (auto simp: enhanced_weights_def norm_columns_def Let_def split: if_splits)
    then show "0 \<le> w \<and> in_unit (norm_columns d l u a j k)"
      using enhanced_weights_nonneg [OF assms(1) kw] by simp
  qed
  then show ?thesis
    using assms(1) by (auto simp: enhanced_weights_sum valid_weights_def in_unit_def)
qed

text \<open>
  C1: for every row of the result, if every normalised signal that enters the active
  weighted sum lies in [0,1], then PRI_Score lies in [0,1]. This holds for the heuristic
  and for the enhanced weights, with or without the redistribution of the ASC weight:
  the active weights are non-negative and sum to 1.
\<close>

theorem C1_pri_score_in_unit:
  assumes "valid_weights cfg"
    and "r \<in> set (normalize_and_calculate_pri df cfg)"
    and "in_unit (Duration_Norm r)"
    and "in_unit (LowQualityTag_Norm r)"
    and "in_unit (UniversalDisagreement_Norm r)"
    and "asc_available df \<longrightarrow> in_unit (ASC_Norm r)"
    and "llm_judge_available df \<longrightarrow> in_unit (LLM_Judge_Norm r)"
  shows "(\<exists>score. PRI_Score r = Some score \<and> 0 \<le> score \<and> score \<le> 1)
    \<and> in_unit (PRI_Score_Heuristic r)
    \<and> (llm_judge_available df \<longrightarrow> in_unit (PRI_Score_Enhanced r))
    \<and> PRI_Score r = (if llm_judge_available df then PRI_Score_Enhanced r
                       else PRI_Score_Heuristic r)
    \<and> sum_list (map snd (heuristic_weights cfg (asc_available df))) = 1
    \<and> sum_list (map snd (enhanced_weights cfg (asc_available df))) = 1
    \<and> (\<forall>w \<in> set (map snd (heuristic_weights cfg (asc_available df))). 0 \<le> w)
    \<and> (\<forall>w \<in> set (map snd (enhanced_weights cfg (asc_available df))). 0 \<le> w)"
proof -
  obtain i d l u a j where
    r: "r = fuse_row cfg (asc_available df) (llm_judge_available df) (df ! i) d l u a j"
    using pri_rows [OF assms(2)] by blast
  note sc = fuse_row_scores [OF r]
  have h: "in_unit (PRI_Score_Heuristic r)"
    unfolding sc(1) using assms by (intro heuristic_fusion_in_unit) auto
  have e: "in_unit (PRI_Score_Enhanced r)" if "llm_judge_available df"
    unfolding sc(2) using assms that by (simp add: enhanced_fusion_in_unit)
  have p: "PRI_Score r = (if llm_judge_available df then PRI_Score_Enhanced r
                       else PRI_Score_Heuristic r)"
    by (rule sc(3))
  have "in_unit (PRI_Score r)"
    using h e p by auto
  then have "\<exists>score. PRI_Score r = Some score \<and> 0 \<le> score \<and> score \<le> 1"
    by (auto simp: in_unit_def split: option.splits)
  moreover have "\<forall>w \<in> set (map snd (heuristic_weights cfg (asc_available df))). 0 \<le> w"
    using heuristic_weights_nonneg [OF assms(1)] by auto
  moreover have "\<forall>w \<in> set (map snd (enhanced_weights cfg (asc_available df))). 0 \<le> w"
    using enhanced_weights_nonneg [OF assms(1)] by auto
  ultimately show ?thesis
    using h e p assms(1)
    by (simp add: heuristic_weights_sum enhanced_weights_sum valid_weights_def)
qed

lemma valid_weights_get_config: "valid_weights (get_config n)"
  by (simp add: valid_weights_def get_config_def)

lemma example_pri_row0:
  "normalize_and_calculate_pri example_signals (get_config 3) ! 0 =
     \<lparr>PID = ''p1'', Duration_seconds = Some 600, LowQualityTag_Perc = Some 0,
       UniversalDisagreement_Perc = Some (1 / 4), ASC_Score_Raw = Some (1 / 10),
       LLM_Judge_Score = None, LLM_model_scores = [],
       Duration_Norm = Some 0, LowQualityTag_Norm = Some 1,
       UniversalDisagreement_Norm = Some (1 / 2), ASC_Norm = Some 1, LLM_Judge_Norm = None,
       PRI_Score_Heuristic = Some (3 / 5), PRI_Score_Enhanced = None,
       PRI_Score = Some (3 / 5), PRI_Scale_1_5 = Some (17 / 5)\<rparr>"
  by code_simp

lemma example_pri_length:
  "length (normalize_and_calculate_pri example_signals (get_config 3)) = 3"
  by code_simp

lemma example_flags: "asc_available example_signals" "\<not> llm_judge_available example_signals"
  by code_simp+

theorem C1_pri_score_in_unit_witness:
  "valid_weights (get_config 3)
   \<and> normalize_and_calculate_pri example_signals (get_config 3) ! 0
       \<in> set (normalize_and_calculate_pri example_signals (get_config 3))
   \<and> in_unit (Duration_Norm (normalize_and_calculate_pri example_signals (get_config 3) ! 0))
   \<and> in_unit (ASC_Norm (normalize_and_calculate_pri example_signals (get_config 3) ! 0))
   \<and> PRI_Score (normalize_and_calculate_pri example_signals (get_config 3) ! 0) = Some (3 / 5)
   \<and> in_unit (PRI_Score_Heuristic (normalize_and_calculate_pri example_signals (get_config 3) ! 0))"
proof -
  have mem: "normalize_and_calculate_pri example_signals (get_config 3) ! 0
       \<in> set (normalize_and_calculate_pri example_signals (get_config 3))"
    by (rule nth_mem) (simp add: example_pri_length)
  show ?thesis
    using C1_pri_score_in_unit [OF valid_weights_get_config mem] mem
    by (simp add: example_pri_row0 in_unit_def example_flags valid_weights_get_config)
qed


text \<open>
  C2: when no participant has an ASC score, the heuristic fusion adds a third of the
  ASC weight to each of the three remaining weights (with the default weights:
  0.30 + 1/15, 0.30 + 1/15, 0.20 + 1/15) and the enhanced fusion adds a quarter of its
  ASC weight to each of the four remaining weights; the scores of every row are then the
  weighted sums over these redistributed weights. With or without redistribution the
  active weights sum to 1, given that the configured weights of each set do.
\<close>

theorem C2_weight_redistribution:
  assumes "DURATION_WEIGHT cfg + LOW_QUALITY_TAG_WEIGHT cfg
             + UNIVERSAL_DISAGREEMENT_WEIGHT cfg + ASC_WEIGHT cfg = 1"
    and "DURATION_WEIGHT_LLM cfg + LOW_QUALITY_TAG_WEIGHT_LLM cfg
           + UNIVERSAL_DISAGREEMENT_WEIGHT_LLM cfg + ASC_WEIGHT_LLM cfg
           + LLM_JUDGE_WEIGHT cfg = 1"
  shows "heuristic_weights cfg False =
           [(''Duration_Norm'', DURATION_WEIGHT cfg + ASC_WEIGHT cfg / 3),
            (''LowQualityTag_Norm'', LOW_QUALITY_TAG_WEIGHT cfg + ASC_WEIGHT cfg / 3),
            (''UniversalDisagreement_Norm'', UNIVERSAL_DISAGREEMENT_WEIGHT cfg + ASC_WEIGHT cfg / 3)]
    \<and> enhanced_weights cfg False =
           [(''Duration_Norm'', DURATION_WEIGHT_LLM cfg + ASC_WEIGHT_LLM cfg / 4),
            (''LowQualityTag_Norm'', LOW_QUALITY_TAG_WEIGHT_LLM cfg + ASC_WEIGHT_LLM cfg / 4),
            (''UniversalDisagreement_Norm'',
               UNIVERSAL_DISAGREEMENT_WEIGHT_LLM cfg + ASC_WEIGHT_LLM cfg / 4),
            (''LLM_Judge_Norm'', LLM_JUDGE_WEIGHT cfg + ASC_WEIGHT_LLM cfg / 4)]
    \<and> map snd (heuristic_weights (get_config n) False)
          = [30 / 100 + 1 / 15, 30 / 100 + 1 / 15, 20 / 100 + 1 / 15]
    \<and> sum_list (map snd (heuristic_weights cfg asc_avail)) = 1
    \<and> sum_list (map snd (enhanced_weights cfg asc_avail)) = 1
    \<and> (isna_all (map ASC_Score_Raw df) \<and> r \<in> set (normalize_and_calculate_pri df cfg) \<longrightarrow>
         PRI_Score_Heuristic r =
           weighted_sum (heuristic_weights cfg False)
             (norm_columns (Duration_Norm r) (LowQualityTag_Norm r)
                (UniversalDisagreement_Norm r) (ASC_Norm r) (LLM_Judge_Norm r))
         \<and> (llm_judge_available df \<longrightarrow>
              PRI_Score r =
                weighted_sum (enhanced_weights cfg False)
                  (norm_columns (Duration_Norm r) (LowQualityTag_Norm r)
                     (UniversalDisagreement_Norm r) (ASC_Norm r) (LLM_Judge_Norm r)))
         \<and> (\<not> llm_judge_available df \<longrightarrow> PRI_Score r = PRI_Score_Heuristic r))"
proof -
  have rows: "PRI_Score_Heuristic r =
           weighted_sum (heuristic_weights cfg False)
             (norm_columns (Duration_Norm r) (LowQualityTag_Norm r)
                (UniversalDisagreement_Norm r) (ASC_Norm r) (LLM_Judge_Norm r))
         \<and> (llm_judge_available df \<longrightarrow>
              PRI_Score r =
                weighted_sum (enhanced_weights cfg False)
                  (norm_columns (Duration_Norm r) (LowQualityTag_Norm r)
                     (UniversalDisagreement_Norm r) (ASC_Norm r) (LLM_Judge_Norm r)))
         \<and> (\<not> llm_judge_available df \<longrightarrow> PRI_Score r = PRI_Score_Heuristic r)"
    if na: "isna_all (map ASC_Score_Raw df)" and mem: "r \<in> set (normalize_and_calculate_pri df cfg)"
  proof -
    have off: "asc_available df = False"
      using na by (simp add: asc_available_def)
    obtain i d l u a j where
      r: "r = fuse_row cfg False (llm_judge_available df) (df ! i) d l u a j"
      using pri_rows [OF mem] unfolding off by blast
    show ?thesis
      using fuse_row_scores [OF r] by simp
  qed
  have defaults: "map snd (heuristic_weights (get_config n) False)
          = [30 / 100 + 1 / 15, 30 / 100 + 1 / 15, 20 / 100 + 1 / 15]"
    by (simp add: heuristic_weights_def get_config_def)
  show ?thesis
    using assms rows defaults
    by (simp add: heuristic_weights_sum enhanced_weights_sum)
       (simp add: heuristic_weights_def enhanced_weights_def Let_def)
qed

lemma example_no_asc_flags:
  "isna_all (map ASC_Score_Raw example_signals_no_asc)"
  "llm_judge_available example_signals_no_asc"
  "length (normalize_and_calculate_pri example_signals_no_asc (get_config 3)) = 2"
  by code_simp+

lemma example_no_asc_row0:
  "normalize_and_calculate_pri example_signals_no_asc (get_config 3) ! 0 =
     \<lparr>PID = ''p1'', Duration_seconds = Some 600, LowQualityTag_Perc = Some 0,
       UniversalDisagreement_Perc = Some (1 / 4), ASC_Score_Raw = None,
       LLM_Judge_Score = Some (Some (4 / 5)), LLM_model_scores = [],
       Duration_Norm = Some 0, LowQualityTag_Norm = Some 1,
       UniversalDisagreement_Norm = Some 0, ASC_Norm = None, LLM_Judge_Norm = Some 1,
       PRI_Score_Heuristic = Some (11 / 30), PRI_Score_Enhanced = Some (23 / 40),
       PRI_Score = Some (23 / 40), PRI_Scale_1_5 = Some (33 / 10)\<rparr>"
  by code_simp

theorem C2_weight_redistribution_witness:
  "DURATION_WEIGHT (get_config 3) + LOW_QUALITY_TAG_WEIGHT (get_config 3)
     + UNIVERSAL_DISAGREEMENT_WEIGHT (get_config 3) + ASC_WEIGHT (get_config 3) = 1
   \<and> DURATION_WEIGHT_LLM (get_config 3) + LOW_QUALITY_TAG_WEIGHT_LLM (get_config 3)
       + UNIVERSAL_DISAGREEMENT_WEIGHT_LLM (get_config 3) + ASC_WEIGHT_LLM (get_config 3)
       + LLM_JUDGE_WEIGHT (get_config 3) = 1
   \<and> isna_all (map ASC_Score_Raw example_signals_no_asc)
   \<and> map snd (heuristic_weights (get_config 3) False) = [11 / 30, 11 / 30, 4 / 15]
   \<and> map snd (enhanced_weights (get_config 3) False) = [19 / 80, 19 / 80, 3 / 16, 27 / 80]
   \<and> sum_list (map snd (heuristic_weights (get_config 3) False)) = 1
   \<and> sum_list (map snd (enhanced_weights (get_config 3) False)) = 1
   \<and> PRI_Score (normalize_and_calculate_pri example_signals_no_asc (get_config 3) ! 0)
       = weighted_sum (enhanced_weights (get_config 3) False)
           (norm_columns (Some 0) (Some 1) (Some 0) None (Some 1))"
proof -
  have h: "DURATION_WEIGHT (get_config 3) + LOW_QUALITY_TAG_WEIGHT (get_config 3)
     + UNIVERSAL_DISAGREEMENT_WEIGHT (get_config 3) + ASC_WEIGHT (get_config 3) = 1"
    by (simp add: get_config_def)
  have e: "DURATION_WEIGHT_LLM (get_config 3) + LOW_QUALITY_TAG_WEIGHT_LLM (get_config 3)
       + UNIVERSAL_DISAGREEMENT_WEIGHT_LLM (get_config 3) + ASC_WEIGHT_LLM (get_config 3)
       + LLM_JUDGE_WEIGHT (get_config 3) = 1"
    by (simp add: get_config_def)
  have mem: "normalize_and_calculate_pri example_signals_no_asc (get_config 3) ! 0
       \<in> set (normalize_and_calculate_pri example_signals_no_asc (get_config 3))"
    by (rule nth_mem) (simp add: example_no_asc_flags)
  have vals: "DURATION_WEIGHT_LLM (get_config 3) = 1 / 5"
      "LOW_QUALITY_TAG_WEIGHT_LLM (get_config 3) = 1 / 5"
      "UNIVERSAL_DISAGREEMENT_WEIGHT_LLM (get_config 3) = 3 / 20"
      "ASC_WEIGHT_LLM (get_config 3) = 3 / 20"
      "LLM_JUDGE_WEIGHT (get_config 3) = 3 / 10"
    by (simp_all add: get_config_def)
  note inst = C2_weight_redistribution [OF h e, of 3 False example_signals_no_asc
            "normalize_and_calculate_pri example_signals_no_asc (get_config 3) ! 0"]
  have "map snd (heuristic_weights (get_config 3) False)
          = [30 / 100 + 1 / 15, 30 / 100 + 1 / 15, 20 / 100 + 1 / 15]"
    using inst by blast
  then have w1: "map snd (heuristic_weights (get_config 3) False) = [11 / 30, 11 / 30, 4 / 15]"
    by simp
  have "enhanced_weights (get_config 3) False =
           [(''Duration_Norm'', DURATION_WEIGHT_LLM (get_config 3) + ASC_WEIGHT_LLM (get_config 3) / 4),
            (''LowQualityTag_Norm'',
               LOW_QUALITY_TAG_WEIGHT_LLM (get_config 3) + ASC_WEIGHT_LLM (get_config 3) / 4),
            (''UniversalDisagreement_Norm'',
               UNIVERSAL_DISAGREEMENT_WEIGHT_LLM (get_config 3) + ASC_WEIGHT_LLM (get_config 3) / 4),
            (''LLM_Judge_Norm'', LLM_JUDGE_WEIGHT (get_config 3) + ASC_WEIGHT_LLM (get_config 3) / 4)]"
    using inst by blast
  then have w2: "map snd (enhanced_weights (get_config 3) False)
                   = [19 / 80, 19 / 80, 3 / 16, 27 / 80]"
    by (simp add: vals)
  have s1: "sum_list (map snd (heuristic_weights (get_config 3) False)) = 1"
    and s2: "sum_list (map snd (enhanced_weights (get_config 3) False)) = 1"
    using inst by blast+
  have "PRI_Score (normalize_and_calculate_pri example_signals_no_asc (get_config 3) ! 0)
       = weighted_sum (enhanced_weights (get_config 3) False)
           (norm_columns
              (Duration_Norm (normalize_and_calculate_pri example_signals_no_asc (get_config 3) ! 0))
              (LowQualityTag_Norm (normalize_and_calculate_pri example_signals_no_asc (get_config 3) ! 0))
              (UniversalDisagreement_Norm (normalize_and_calculate_pri example_signals_no_asc (get_config 3) ! 0))
              (ASC_Norm (normalize_and_calculate_pri example_signals_no_asc (get_config 3) ! 0))
              (LLM_Judge_Norm (normalize_and_calculate_pri example_signals_no_asc (get_config 3) ! 0)))"
    using inst mem example_no_asc_flags(1,2) by blast
  then have sc: "PRI_Score (normalize_and_calculate_pri example_signals_no_asc (get_config 3) ! 0)
       = weighted_sum (enhanced_weights (get_config 3) False)
           (norm_columns (Some 0) (Some 1) (Some 0) None (Some 1))"
    unfolding example_no_asc_row0 by simp
  show ?thesis
    using h e example_no_asc_flags(1) w1 w2 s1 s2 sc by blast
qed

section \<open>Capped normalisation and missing values\<close>

lemma present_in_dropna: "i < length s \<Longrightarrow> s ! i = Some v \<Longrightarrow> v \<in> set (dropna s)"
  by (metis mem_Collect_eq nth_mem set_dropna)

text \<open>
  What \<open>min_max_normalize\<close> computes for a present raw value \<open>v\<close> of a population that is
  not entirely missing and not all equal. With a cap \<open>c\<close>: a value strictly above the cap
  gives 1; a value at or below the cap gives \<open>(v - min) / (c - min)\<close> when the population
  maximum exceeds the cap and the minimum is below it; when the population maximum does
  not exceed the cap, the code takes the uncapped branch and gives
  \<open>(v - min) / (max - min)\<close>. Without a cap it gives \<open>(v - min) / (max - min)\<close>, and one
  minus that for an inverted signal.
\<close>

lemma min_max_normalize_capped:
  assumes "\<not> isna_all s" and "pop_min s \<noteq> pop_max s" and "i < length s" and "s ! i = Some v"
  shows "(c < v \<longrightarrow> min_max_normalize s False (Some c) ! i = Some 1)
    \<and> (v \<le> c \<and> c < pop_max s \<and> pop_min s < c \<longrightarrow>
         min_max_normalize s False (Some c) ! i = Some ((v - pop_min s) / (c - pop_min s)))
    \<and> (pop_max s \<le> c \<longrightarrow>
         min_max_normalize s False (Some c) ! i
           = Some ((v - pop_min s) / (pop_max s - pop_min s)))
    \<and> min_max_normalize s False None ! i = Some ((v - pop_min s) / (pop_max s - pop_min s))
    \<and> min_max_normalize s True None ! i
         = Some (1 - (v - pop_min s) / (pop_max s - pop_min s))"
proof -
  have "v \<le> pop_max s"
    using present_in_dropna [OF assms(3,4)] by (rule pop_bounds)
  then show ?thesis
    using assms
    by (simp add: min_max_normalize_nth normalized_value_def float_div_def)
qed

lemma example_durations:
  "\<not> isna_all [Some 60, None, Some 120, Some 7000]"
  "pop_min [Some 60, None, Some 120, Some 7000] = 60"
  "pop_max [Some 60, None, Some 120, Some 7000] = 7000"
  by (simp_all add: isna_all_def pop_min_def pop_max_def)

lemma min_max_normalize_capped_example:
  "\<not> isna_all [Some 60, None, Some 120, Some 7000]
   \<and> pop_min [Some 60, None, Some 120, Some 7000] \<noteq> pop_max [Some 60, None, Some 120, Some 7000]
   \<and> min_max_normalize [Some 60, None, Some 120, Some 7000] False (Some 5400) ! 2
       = Some (60 / 5340)
   \<and> min_max_normalize [Some 60, None, Some 120, Some 7000] False (Some 5400) ! 3 = Some 1
   \<and> min_max_normalize [Some 60, None, Some 120, Some 7000] False (Some 8000) ! 2
       = Some (60 / 6940)
   \<and> min_max_normalize [Some 60, None, Some 120, Some 7000] True None ! 2
       = Some (1 - 60 / 6940)"
  using min_max_normalize_capped [of "[Some 60, None, Some 120, Some 7000]" 2 120 5400]
        min_max_normalize_capped [of "[Some 60, None, Some 120, Some 7000]" 3 7000 5400]
        min_max_normalize_capped [of "[Some 60, None, Some 120, Some 7000]" 2 120 8000]
  by (simp add: example_durations)

text \<open>
  C5 at the durations 60 and 120 seconds with the cap 5400: the population is not
  entirely missing and not all equal, and the value 120 is at or below the cap, so by
  the function's documentation ("values below get scaled between min_val and
  reasonable_max") it should normalise to \<open>(120 - 60) / (5400 - 60)\<close>. No value exceeds the
  cap, the test \<open>max_val > reasonable_max\<close> fails, and the code normalises 120 to 1.
\<close>

theorem C5_value_below_cap_normalizes_to_one:
  "DURATION_REASONABLE_MAX (get_config 3) = 5400
   \<and> \<not> isna_all [Some 60, Some 120]
   \<and> pop_min [Some 60, Some 120] \<noteq> pop_max [Some 60, Some 120]
   \<and> [Some 60, Some 120] ! 1 = Some (120 :: real)
   \<and> (120 :: real) \<le> 5400
   \<and> min_max_normalize [Some 60, Some 120] False (Some 5400) ! 1 = Some 1
   \<and> min_max_normalize [Some 60, Some 120] False (Some 5400) ! 1
       \<noteq> Some ((120 - pop_min [Some 60, Some 120]) / (5400 - pop_min [Some 60, Some 120]))"
  by (simp add: min_max_normalize_def median_def isna_all_def fillna_def float_div_def
        pop_min_def pop_max_def get_config_def)

text \<open>
  What holds of missing values: a missing raw value gives a missing normalised value;
  a present raw value gives a present one unless the cap equals the population minimum;
  and filling the missing entries with the median leaves the range that of the present
  values.
\<close>

lemma min_max_normalize_missing:
  assumes "i < length s" and "s ! i = None"
  shows "min_max_normalize s invert reasonable_max ! i = None"
proof (cases "isna_all s")
  case True
  then show ?thesis
    using assms by (simp add: min_max_normalize_def)
next
  case False
  then show ?thesis
    using assms by (simp add: min_max_normalize_nth)
qed

lemma min_max_normalize_present:
  assumes "\<not> isna_all s" and "i < length s" and "s ! i = Some v"
    and "reasonable_max = None \<or> reasonable_max \<noteq> Some (pop_min s)"
  shows "min_max_normalize s invert reasonable_max ! i \<noteq> None"
proof -
  have "min_max_normalize s invert reasonable_max ! i = normalized_value s invert reasonable_max v"
    using assms(1-3) by (simp add: min_max_normalize_nth)
  moreover have "normalized_value s invert reasonable_max v \<noteq> None"
    using assms(4)
    by (cases reasonable_max; cases invert)
       (auto simp: normalized_value_def float_div_def Let_def intro: exI [of _ "1 / 2"])
  ultimately show ?thesis
    by simp
qed

lemma min_max_normalize_range_as_median:
  assumes "\<not> isna_all s"
  shows "\<exists>m. median s = Some m
           \<and> Min (set (fillna s m)) = pop_min s \<and> Max (set (fillna s m)) = pop_max s"
proof -
  have ne: "dropna s \<noteq> []"
    using assms by (simp add: isna_all_iff)
  obtain m where m: "median s = Some m" "pop_min s \<le> m" "m \<le> pop_max s"
    using median_bounds [OF ne] by blast
  show ?thesis
    using m Min_fillna [OF ne m(2)] Max_fillna [OF ne m(3)] by simp
qed

text \<open>
  C6 at the durations 5400 and 6000 seconds with the default cap of 5400: the maximum
  exceeds the cap, so the capped branch divides by \<open>reasonable_max - min_val = 0\<close>; the
  participant whose raw duration 5400 is present receives a missing normalised value.
\<close>

theorem C6_present_value_normalizes_to_missing:
  "DURATION_REASONABLE_MAX (get_config 3) = 5400
   \<and> \<not> isna_all [Some 5400, Some 6000]
   \<and> min_max_normalize [Some 5400, Some 6000] False
        (Some (DURATION_REASONABLE_MAX (get_config 3))) = [None, Some 1]"
  by (simp add: min_max_normalize_def median_def isna_all_def fillna_def float_div_def
        get_config_def)

section \<open>Properties of identify_unreliable_participants\<close>

text \<open>
  C8: with the method \<open>outliers\<close> the function returns exactly the participants, in
  table order, whose 1-5-scale score is strictly below \<open>Q1 - 1.5 * IQR\<close>, the quartiles
  being those of the non-missing scores (a participant without a score is never returned,
  and a table without any score gives the empty list); the table is left as it was.
\<close>

theorem C8_outliers:
  "identify_unreliable_participants df ''outliers'' threshold =
     (Inr (map PID (filter (strictly_below_fence df) df)), df)"
proof (cases "dropna (map PRI_Scale_1_5 df) = []")
  case True
  then have "Some a \<notin> set (map PRI_Scale_1_5 df)" for a
    using set_dropna [of "map PRI_Scale_1_5 df"] by auto
  then have "PRI_Scale_1_5 r = None" if "r \<in> set df" for r
    using that by (cases "PRI_Scale_1_5 r") force+
  then have "filter (strictly_below_fence df) df = []"
    by (auto simp: strictly_below_fence_def filter_empty_conv)
  with True show ?thesis
    by (simp add: identify_unreliable_participants_def)
next
  case False
  have "(\<lambda>r. nan_less (PRI_Scale_1_5 r)
           (quantile (dropna (map PRI_Scale_1_5 df)) (25 / 100)
            - 3 / 2 * (quantile (dropna (map PRI_Scale_1_5 df)) (75 / 100)
                       - quantile (dropna (map PRI_Scale_1_5 df)) (25 / 100))))
        = strictly_below_fence df"
    by (auto simp: fun_eq_iff strictly_below_fence_def nan_less_def Q1_def Q3_def IQR_def
          split: option.splits)
  with False show ?thesis
    by (simp add: identify_unreliable_participants_def Let_def)
qed

lemma example_scores_quartiles:
  "Q1 example_scores = 4" "Q3 example_scores = 9 / 2" "IQR example_scores = 1 / 2"
  "Q1 spec_scores = 9 / 4" "Q3 spec_scores = 4" "IQR spec_scores = 7 / 4"
  by code_simp+

lemma example_scores_below_fence:
  "map PID (filter (strictly_below_fence example_scores) example_scores) = [''b'']"
  "map PID (filter (strictly_below_fence spec_scores) spec_scores) = []"
  by code_simp+

theorem C8_outliers_witness:
  "Q1 example_scores - 1.5 * IQR example_scores = 13 / 4
   \<and> identify_unreliable_participants example_scores ''outliers'' None
       = (Inr [''b''], example_scores)
   \<and> Q1 spec_scores - 1.5 * IQR spec_scores = - (3 / 8)
   \<and> identify_unreliable_participants spec_scores ''outliers'' None = (Inr [], spec_scores)"
  using C8_outliers [of example_scores None] C8_outliers [of spec_scores None]
  by (simp add: example_scores_quartiles example_scores_below_fence)

section \<open>Properties of calculate_all_pri_signals\<close>

lemma unique_acc_first_occurrences:
  "unique_acc seen xs =
     map (\<lambda>i. xs ! i) (filter (\<lambda>i. xs ! i \<notin> set seen \<union> set (take i xs)) [0 ..< length xs])"
proof (induction xs arbitrary: seen)
  case Nil
  then show ?case by simp
next
  case (Cons x xs)
  have upt: "[0 ..< Suc (length xs)] = 0 # map Suc [0 ..< length xs]"
    by (simp add: upt_conv_Cons map_Suc_upt del: upt_Suc)
  have split: "map (\<lambda>i. (x # xs) ! i)
          (filter (\<lambda>i. (x # xs) ! i \<notin> set seen \<union> set (take i (x # xs))) [0 ..< length (x # xs)])
        = (if x \<in> set seen then [] else [x])
          @ map (\<lambda>i. xs ! i)
              (filter (\<lambda>i. xs ! i \<notin> set (x # seen) \<union> set (take i xs)) [0 ..< length xs])"
    by (simp add: upt filter_map comp_def conj_ac del: upt_Suc)
  show ?case
  proof (cases "x \<in> set seen")
    case True
    then have "set (x # seen) = set seen"
      by auto
    then show ?thesis
      using True Cons.IH [of seen] unfolding split by simp
  next
    case False
    then show ?thesis
      using Cons.IH [of "x # seen"] unfolding split by simp
  qed
qed

lemma unique_first_occurrences:
  "unique xs = map (\<lambda>i. xs ! i) (filter (\<lambda>i. xs ! i \<notin> set (take i xs)) [0 ..< length xs])"
  by (simp add: unique_def unique_acc_first_occurrences)

lemma distinct_unique_acc: "distinct (unique_acc seen xs) \<and> set (unique_acc seen xs) = set xs - set seen"
  by (induction xs arbitrary: seen) auto

lemma distinct_unique: "distinct (unique xs)" and set_unique: "set (unique xs) = set xs"
  by (simp_all add: unique_def distinct_unique_acc)

lemma signals_loop_map:
  "signals_loop calc en ids results = results @ map (participant_result calc en) ids"
  by (induction ids arbitrary: results) simp_all

lemma PID_participant_result [simp]: "PID (participant_result calc en p) = p"
  by (simp add: participant_result_def error_dict_def split: sum.splits prod.splits)

lemma PID_apply_llm_result [simp]: "PID (apply_llm_result llm r) = PID r"
  by (simp add: apply_llm_result_def split: option.splits prod.splits)

lemma processed_prefix:
  "\<exists>k. processed_participant_ids ids limit = take k ids"
  by (cases limit) (auto simp: processed_participant_ids_def py_slice_to_def intro: exI [of _ "length ids"])

lemma calculate_all_pri_signals_rows:
  "calculate_all_pri_signals ids calc limit en found llm =
     map (\<lambda>p. if en \<and> found
               then apply_llm_result llm (participant_result calc True p)
               else participant_result calc False p)
       (processed_participant_ids ids limit)"
proof -
  define b where "b = (en \<and> found)"
  have "calculate_all_pri_signals ids calc limit en found llm =
          (if b then map (apply_llm_result llm)
                       (map (participant_result calc b) (processed_participant_ids ids limit))
           else map (participant_result calc b) (processed_participant_ids ids limit))"
    by (simp add: calculate_all_pri_signals_def signals_loop_map Let_def b_def)
  also have "\<dots> = map (\<lambda>p. if b then apply_llm_result llm (participant_result calc True p)
                         else participant_result calc False p)
                  (processed_participant_ids ids limit)"
    by (cases b) simp_all
  finally show ?thesis
    by (simp add: b_def)
qed

lemma compute_signals_raises:
  "raises calc p \<longleftrightarrow> (\<exists>e. compute_signals calc p = Inl e)"
  by (auto simp: raises_def compute_signals_def split: sum.splits)

lemma participant_result_error:
  "raises calc p \<Longrightarrow> participant_result calc en p = error_dict en p"
  by (auto simp: compute_signals_raises participant_result_def)

lemma apply_llm_result_signals:
  "Duration_seconds (apply_llm_result llm r) = Duration_seconds r"
  "LowQualityTag_Perc (apply_llm_result llm r) = LowQualityTag_Perc r"
  "UniversalDisagreement_Perc (apply_llm_result llm r) = UniversalDisagreement_Perc r"
  "ASC_Score_Raw (apply_llm_result llm r) = ASC_Score_Raw r"
  by (simp_all add: apply_llm_result_def split: option.splits prod.splits)

text \<open>
  C10: the result has exactly one row per processed participant ID, in the order of the
  processed IDs, and no ID occurs twice. The processed IDs are a prefix (all of them
  without a limit) of the distinct participant IDs of the vote log in order of first
  appearance. When a calculator raises for a participant, the loop appends the error
  dictionary for that participant, in which every signal is missing, and the four raw
  signals of that row stay missing in the result.
\<close>

theorem C10_one_row_per_participant:
  "map PID (calculate_all_pri_signals (load_data_all_participant_ids binary_df) calc
              participant_limit enable_llm_judge found llm_results)
     = processed_participant_ids (load_data_all_participant_ids binary_df) participant_limit
   \<and> distinct (map PID (calculate_all_pri_signals (load_data_all_participant_ids binary_df) calc
                          participant_limit enable_llm_judge found llm_results))
   \<and> (\<exists>k. processed_participant_ids (load_data_all_participant_ids binary_df) participant_limit
            = take k (load_data_all_participant_ids binary_df))
   \<and> processed_participant_ids (load_data_all_participant_ids binary_df) None
       = load_data_all_participant_ids binary_df
   \<and> load_data_all_participant_ids binary_df
       = map (\<lambda>i. map Participant_ID binary_df ! i)
           (filter (\<lambda>i. map Participant_ID binary_df ! i
                           \<notin> set (take i (map Participant_ID binary_df)))
              [0 ..< length binary_df])
   \<and> (\<forall>i < length (processed_participant_ids (load_data_all_participant_ids binary_df)
                      participant_limit).
         raises calc (processed_participant_ids (load_data_all_participant_ids binary_df)
                        participant_limit ! i) \<longrightarrow>
           participant_result calc (enable_llm_judge \<and> found)
               (processed_participant_ids (load_data_all_participant_ids binary_df)
                  participant_limit ! i)
             = error_dict (enable_llm_judge \<and> found)
                 (processed_participant_ids (load_data_all_participant_ids binary_df)
                    participant_limit ! i)
           \<and> Duration_seconds (calculate_all_pri_signals (load_data_all_participant_ids binary_df)
                 calc participant_limit enable_llm_judge found llm_results ! i) = None
           \<and> LowQualityTag_Perc (calculate_all_pri_signals (load_data_all_participant_ids binary_df)
                 calc participant_limit enable_llm_judge found llm_results ! i) = None
           \<and> UniversalDisagreement_Perc
               (calculate_all_pri_signals (load_data_all_participant_ids binary_df)
                 calc participant_limit enable_llm_judge found llm_results ! i) = None
           \<and> ASC_Score_Raw (calculate_all_pri_signals (load_data_all_participant_ids binary_df)
                 calc participant_limit enable_llm_judge found llm_results ! i) = None)"
proof -
  define ids where "ids = load_data_all_participant_ids binary_df"
  define proc where "proc = processed_participant_ids ids participant_limit"
  define out where
    "out = calculate_all_pri_signals ids calc participant_limit enable_llm_judge found llm_results"
  have out_eq: "out = map (\<lambda>p. if enable_llm_judge \<and> found
               then apply_llm_result llm_results (participant_result calc True p)
               else participant_result calc False p) proc"
    by (simp add: out_def proc_def calculate_all_pri_signals_rows)
  have pids: "map PID out = proc"
    by (simp add: out_eq comp_def map_idI)
  obtain k where k: "proc = take k ids"
    using processed_prefix [of ids participant_limit] by (auto simp: proc_def)
  have "distinct ids"
    by (simp add: ids_def load_data_all_participant_ids_def distinct_unique)
  then have dist: "distinct (map PID out)"
    by (simp add: pids k)
  have none: "processed_participant_ids ids None = ids"
    by (simp add: processed_participant_ids_def)
  have first: "ids = map (\<lambda>i. map Participant_ID binary_df ! i)
           (filter (\<lambda>i. map Participant_ID binary_df ! i
                           \<notin> set (take i (map Participant_ID binary_df)))
              [0 ..< length binary_df])"
    using unique_first_occurrences [of "map Participant_ID binary_df"]
    by (simp add: ids_def load_data_all_participant_ids_def)
  have err: "participant_result calc (enable_llm_judge \<and> found) (proc ! i)
               = error_dict (enable_llm_judge \<and> found) (proc ! i)
           \<and> Duration_seconds (out ! i) = None \<and> LowQualityTag_Perc (out ! i) = None
           \<and> UniversalDisagreement_Perc (out ! i) = None \<and> ASC_Score_Raw (out ! i) = None"
    if "i < length proc" and "raises calc (proc ! i)" for i
    using that
    by (simp add: out_eq participant_result_error apply_llm_result_signals error_dict_def)
  show ?thesis
    using pids dist k none first err
    unfolding out_def proc_def ids_def by blast
qed

lemma example_ids:
  "load_data_all_participant_ids example_votes = [''p1'', ''p2'']"
  by code_simp

lemma example_raises: "raises example_calculators ''p2''" "\<not> raises example_calculators ''p1''"
  by (simp_all add: raises_def example_calculators_def)

lemma example_all_signals:
  "calculate_all_pri_signals [''p1'', ''p2''] example_calculators None True True
     example_llm_results =
     [\<lparr>PID = ''p1'', Duration_seconds = Some 600, LowQualityTag_Perc = Some 0,
       UniversalDisagreement_Perc = Some (1 / 4), ASC_Score_Raw = Some (1 / 3),
       LLM_Judge_Score = Some (Some (4 / 5)),
       LLM_model_scores = [(''LLM_openai_gpt_4o_mini'', Some (4 / 5))]\<rparr>,
      \<lparr>PID = ''p2'', Duration_seconds = None, LowQualityTag_Perc = None,
       UniversalDisagreement_Perc = None, ASC_Score_Raw = None,
       LLM_Judge_Score = Some (Some (1 / 2)), LLM_model_scores = []\<rparr>]"
  by code_simp

theorem C10_one_row_per_participant_witness:
  "load_data_all_participant_ids example_votes = [''p1'', ''p2'']
   \<and> raises example_calculators ''p2''
   \<and> map PID (calculate_all_pri_signals (load_data_all_participant_ids example_votes)
        example_calculators None True True example_llm_results) = [''p1'', ''p2'']
   \<and> Duration_seconds (calculate_all_pri_signals (load_data_all_participant_ids example_votes)
        example_calculators None True True example_llm_results ! 1) = None
   \<and> ASC_Score_Raw (calculate_all_pri_signals (load_data_all_participant_ids example_votes)
        example_calculators None True True example_llm_results ! 1) = None
   \<and> participant_result example_calculators True ''p2'' = error_dict True ''p2''"
proof -
  note inst = C10_one_row_per_participant [of example_votes example_calculators None True True
      example_llm_results]
  have "processed_participant_ids (load_data_all_participant_ids example_votes) None
          = load_data_all_participant_ids example_votes"
    using inst by blast
  then have proc: "processed_participant_ids (load_data_all_participant_ids example_votes) None
                = [''p1'', ''p2'']"
    by (simp add: example_ids)
  have "map PID (calculate_all_pri_signals (load_data_all_participant_ids example_votes)
        example_calculators None True True example_llm_results)
      = processed_participant_ids (load_data_all_participant_ids example_votes) None"
    using inst by blast
  then have pids: "map PID (calculate_all_pri_signals (load_data_all_participant_ids example_votes)
        example_calculators None True True example_llm_results) = [''p1'', ''p2'']"
    by (simp only: proc)
  have "1 < length (processed_participant_ids (load_data_all_participant_ids example_votes) None)"
    and "raises example_calculators
           (processed_participant_ids (load_data_all_participant_ids example_votes) None ! 1)"
    by (simp_all add: proc example_raises)
  then have "participant_result example_calculators (True \<and> True)
               (processed_participant_ids (load_data_all_participant_ids example_votes) None ! 1)
             = error_dict (True \<and> True)
                 (processed_participant_ids (load_data_all_participant_ids example_votes) None ! 1)
           \<and> Duration_seconds (calculate_all_pri_signals (load_data_all_participant_ids example_votes)
                 example_calculators None True True example_llm_results ! 1) = None
           \<and> LowQualityTag_Perc (calculate_all_pri_signals (load_data_all_participant_ids example_votes)
                 example_calculators None True True example_llm_results ! 1) = None
           \<and> UniversalDisagreement_Perc
               (calculate_all_pri_signals (load_data_all_participant_ids example_votes)
                 example_calculators None True True example_llm_results ! 1) = None
           \<and> ASC_Score_Raw (calculate_all_pri_signals (load_data_all_participant_ids example_votes)
                 example_calculators None True True example_llm_results ! 1) = None"
    using inst by blast
  then show ?thesis
    using pids by (simp add: example_ids example_raises processed_participant_ids_def)
qed

section \<open>Properties of the judge request schedule\<close>

lemma semaphore_inv_initial: "semaphore_inv P (initial P participant_ids)"
  by (simp add: semaphore_inv_def initial_def)

lemma set_remove_nth: "set (take i xs @ drop (Suc i) xs) \<subseteq> set xs"
  using set_take_subset [of i xs] set_drop_subset [of "Suc i" xs] by auto

lemma semaphore_inv_step:
  assumes "semaphore_inv P s" and "apply_event P has_responses s e = Some s'"
  shows "semaphore_inv P s'"
proof (cases e)
  case NextBatch
  then show ?thesis
    using assms by (auto simp: semaphore_inv_def split: if_splits list.splits)
next
  case (Acquire i)
  then show ?thesis
    using assms by (auto simp: semaphore_inv_def n_calls_def split: if_splits)
next
  case (Send i)
  then obtain p u f where s': "i < length (running s)" "running s ! i = (p, u, f)" "0 < u"
      "s' = s\<lparr>running := (running s)[i := (p, u - 1, f + 1)]\<rparr>"
    using assms(2) by (auto split: if_splits prod.splits)
  have "(p, u, f) \<in> set (running s)"
    using s'(1,2) nth_mem by metis
  then have "u + f \<le> length (models P)"
    using assms(1) by (auto simp: semaphore_inv_def)
  then have "\<forall>(q, a, b) \<in> insert (p, u - 1, f + 1) (set (running s)). a + b \<le> length (models P)"
    using assms(1) s'(3) by (auto simp: semaphore_inv_def)
  then have "\<forall>(q, a, b) \<in> set ((running s)[i := (p, u - 1, f + 1)]). a + b \<le> length (models P)"
    using set_update_subset_insert [of "running s" i "(p, u - 1, f + 1)"] by blast
  then show ?thesis
    using assms(1) by (simp add: semaphore_inv_def s'(4))
next
  case (Complete i)
  then obtain p u f where s': "i < length (running s)" "running s ! i = (p, u, f)" "0 < f"
      "s' = s\<lparr>running := (running s)[i := (p, u, f - 1)]\<rparr>"
    using assms(2) by (auto split: if_splits prod.splits)
  have "(p, u, f) \<in> set (running s)"
    using s'(1,2) nth_mem by metis
  then have "u + f \<le> length (models P)"
    using assms(1) by (auto simp: semaphore_inv_def)
  then have "\<forall>(q, a, b) \<in> insert (p, u, f - 1) (set (running s)). a + b \<le> length (models P)"
    using assms(1) by (auto simp: semaphore_inv_def)
  then have "\<forall>(q, a, b) \<in> set ((running s)[i := (p, u, f - 1)]). a + b \<le> length (models P)"
    using set_update_subset_insert [of "running s" i "(p, u, f - 1)"] by blast
  then show ?thesis
    using assms(1) by (simp add: semaphore_inv_def s'(4))
next
  case (Release i)
  then obtain p where s': "i < length (running s)"
      "s' = s\<lparr>running := take i (running s) @ drop (Suc i) (running s),
               permits := permits s + 1, finished := finished s @ [p]\<rparr>"
    using assms(2) by (auto split: if_splits prod.splits)
  have "\<forall>(q, a, b) \<in> set (take i (running s) @ drop (Suc i) (running s)).
          a + b \<le> length (models P)"
    using assms(1) set_remove_nth [of i "running s"] unfolding semaphore_inv_def by blast
  then show ?thesis
    using assms(1) s'(1) by (simp add: semaphore_inv_def s'(2))
qed

lemma semaphore_inv_run:
  "semaphore_inv P s \<Longrightarrow> run P has_responses s es = Some s' \<Longrightarrow> semaphore_inv P s'"
proof (induction es arbitrary: s)
  case Nil
  then show ?case by simp
next
  case (Cons e es)
  then show ?case
    by (auto split: option.splits dest: semaphore_inv_step)
qed

lemma in_flight_sum_bound:
  "\<forall>(p, unsent, in_flight) \<in> set rs. unsent + in_flight \<le> k \<Longrightarrow>
     sum_list (map (\<lambda>(p, unsent, in_flight). in_flight) rs) \<le> k * length rs"
  by (induction rs) auto

text \<open>
  In every state of every schedule, at most \<open>MAX_CONCURRENT_REQUESTS\<close> tasks
  (participants) are inside the semaphore, and at most that many times the number of
  models requests are in flight; with one call per participant the number of requests in
  flight stays within the bound.
\<close>

lemma requests_in_flight_bound:
  assumes "run P has_responses (initial P participant_ids) es = Some s"
  shows "length (running s) \<le> MAX_CONCURRENT_REQUESTS P"
    and "requests_in_flight s \<le> length (models P) * MAX_CONCURRENT_REQUESTS P"
proof -
  have inv: "semaphore_inv P s"
    using semaphore_inv_run [OF semaphore_inv_initial assms] .
  then show len: "length (running s) \<le> MAX_CONCURRENT_REQUESTS P"
    by (simp add: semaphore_inv_def)
  have "requests_in_flight s \<le> length (models P) * length (running s)"
    unfolding requests_in_flight_def using inv
    by (intro in_flight_sum_bound) (simp add: semaphore_inv_def)
  also have "\<dots> \<le> length (models P) * MAX_CONCURRENT_REQUESTS P"
    using len by simp
  finally show "requests_in_flight s \<le> length (models P) * MAX_CONCURRENT_REQUESTS P" .
qed

text \<open>
  C9 on one batch of 100 participants with evaluatable responses, under the constants
  of the source (bound 200, batch size 100, three models): every task enters the
  semaphore, which counts participants, and each posts its three requests; before the
  first reply arrives 300 judge requests are in flight, more than the bound of 200.
\<close>

theorem C9_requests_in_flight_exceed_cap:
  "MAX_CONCURRENT_REQUESTS source_params = 200
   \<and> map_option requests_in_flight
        (run source_params (\<lambda>p. True) (initial source_params [0 ..< (100::nat)])
           (all_sent_schedule 100 (length (models source_params))))
      = Some 300"
  by code_simp


end
